theory Spec2Isabelle
  imports Complex_Main
begin

section \<open>JavaScript values\<close>

text \<open>
  A JavaScript string is a sequence of UTF-16 code units; a code unit is modelled by its
  number. Property names are the fixed ASCII names the program uses and are written as
  HOL strings.
\<close>

type_synonym jsstring = "nat list"

definition js :: "string \<Rightarrow> jsstring" where
  "js s = map of_char s"

text \<open>
  The values that \<open>JSON.parse\<close> produces, together with \<open>undefined\<close> (the result of
  reading a property that is not there). A number is modelled by an integer: the program
  never computes with numbers, it only tests them for being zero or nullish and compares
  them with \<open>===\<close>. An object is the list of its own properties.
\<close>

datatype jsval =
    JUndefined
  | JNull
  | JBool bool
  | JNum int
  | JStr jsstring
  | JArr "jsval list"
  | JObj "(string \<times> jsval) list"

datatype error = ReferenceError | TypeError | AbortError | OtherError

text \<open>ToBoolean: what \<open>!v\<close>, \<open>v || w\<close> and \<open>Boolean(v)\<close> test.\<close>

fun truthy :: "jsval \<Rightarrow> bool" where
  "truthy JUndefined = False"
| "truthy JNull = False"
| "truthy (JBool b) = b"
| "truthy (JNum n) = (n \<noteq> 0)"
| "truthy (JStr s) = (s \<noteq> [])"
| "truthy (JArr xs) = True"
| "truthy (JObj kvs) = True"

fun nullish :: "jsval \<Rightarrow> bool" where
  "nullish JUndefined = True"
| "nullish JNull = True"
| "nullish v = False"

text \<open>\<open>a || b\<close> and \<open>a ?? b\<close> on values that are already computed.\<close>

definition js_or :: "jsval \<Rightarrow> jsval \<Rightarrow> jsval" where
  "js_or a b = (if truthy a then a else b)"

definition js_coalesce :: "jsval \<Rightarrow> jsval \<Rightarrow> jsval" where
  "js_coalesce a b = (if nullish a then b else a)"

text \<open>
  \<open>v.k\<close> for the property names of this program (none of them is a property of a
  built-in prototype, so a value that is not an object with that own property gives
  \<open>undefined\<close>); reading a property of \<open>null\<close> or \<open>undefined\<close> throws a TypeError.
  \<open>v?.k\<close> gives \<open>undefined\<close> there instead.
\<close>

fun own_prop :: "jsval \<Rightarrow> string \<Rightarrow> jsval" where
  "own_prop (JObj kvs) k = (case map_of kvs k of Some v \<Rightarrow> v | None \<Rightarrow> JUndefined)"
| "own_prop v k = JUndefined"

definition get_prop :: "jsval \<Rightarrow> string \<Rightarrow> error + jsval" where
  "get_prop v k = (if nullish v then Inl TypeError else Inr (own_prop v k))"

definition opt_prop :: "jsval \<Rightarrow> string \<Rightarrow> jsval" where
  "opt_prop v k = (if nullish v then JUndefined else own_prop v k)"

text \<open>
  \<open>a === b\<close>. Two objects or arrays are equal only when they are the same object; the
  operands compared by this program lie at different places of one parsed document, so
  they never are.
\<close>

definition strict_eq :: "jsval \<Rightarrow> jsval \<Rightarrow> bool" where
  "strict_eq a b =
     (case (a, b) of
        (JUndefined, JUndefined) \<Rightarrow> True
      | (JNull, JNull) \<Rightarrow> True
      | (JBool x, JBool y) \<Rightarrow> x = y
      | (JNum x, JNum y) \<Rightarrow> x = y
      | (JStr x, JStr y) \<Rightarrow> x = y
      | _ \<Rightarrow> False)"

text \<open>Errors are values: a function that can throw returns \<open>error + 'a\<close>.\<close>

definition bind_err :: "error + 'a \<Rightarrow> ('a \<Rightarrow> error + 'b) \<Rightarrow> error + 'b" where
  "bind_err r f = (case r of Inl e \<Rightarrow> Inl e | Inr x \<Rightarrow> f x)"

fun map_err :: "('a \<Rightarrow> error + 'b) \<Rightarrow> 'a list \<Rightarrow> error + 'b list" where
  "map_err f [] = Inr []"
| "map_err f (x # xs) =
     (case f x of
        Inl e \<Rightarrow> Inl e
      | Inr y \<Rightarrow> (case map_err f xs of Inl e \<Rightarrow> Inl e | Inr ys \<Rightarrow> Inr (y # ys)))"

text \<open>The decimal digits of a natural number, as a template literal prints a status.\<close>

function show_nat :: "nat \<Rightarrow> jsstring" where
  "show_nat n = (if n < 10 then [48 + n] else show_nat (n div 10) @ [48 + n mod 10])"
  by pat_completeness auto
termination
  by (relation "measure (\<lambda>n. n)") auto

declare show_nat.simps [simp del]

fun js_join :: "jsstring \<Rightarrow> jsstring list \<Rightarrow> jsstring" where
  "js_join sep [] = []"
| "js_join sep [x] = x"
| "js_join sep (x # y # ys) = x @ sep @ js_join sep (y # ys)"

section \<open>Regular expressions and \<open>String.prototype.replace\<close>\<close>

text \<open>
  A backtracking matcher in continuation-passing style: a matcher takes the rest of the
  input and returns what is left after the whole match, or \<open>None\<close>. Each combinator
  takes the matcher of the rest of the pattern. The alternatives are tried in the order
  of the ECMAScript semantics: a greedy quantifier tries the longer match first, a lazy
  one the shorter.
\<close>

type_synonym matcher = "jsstring \<Rightarrow> jsstring option"

definition rx_char :: "(nat \<Rightarrow> bool) \<Rightarrow> matcher \<Rightarrow> matcher" where
  "rx_char P k s = (case s of [] \<Rightarrow> None | c # cs \<Rightarrow> if P c then k cs else None)"

fun rx_star_lazy :: "(nat \<Rightarrow> bool) \<Rightarrow> matcher \<Rightarrow> matcher" where
  "rx_star_lazy P k [] = k []"
| "rx_star_lazy P k (c # cs) =
     (case k (c # cs) of
        Some r \<Rightarrow> Some r
      | None \<Rightarrow> if P c then rx_star_lazy P k cs else None)"

fun rx_star_greedy :: "(nat \<Rightarrow> bool) \<Rightarrow> matcher \<Rightarrow> matcher" where
  "rx_star_greedy P k [] = k []"
| "rx_star_greedy P k (c # cs) =
     (if P c then
        (case rx_star_greedy P k cs of Some r \<Rightarrow> Some r | None \<Rightarrow> k (c # cs))
      else k (c # cs))"

definition rx_plus_greedy :: "(nat \<Rightarrow> bool) \<Rightarrow> matcher \<Rightarrow> matcher" where
  "rx_plus_greedy P k = rx_char P (rx_star_greedy P k)"

definition rx_opt_greedy :: "(matcher \<Rightarrow> matcher) \<Rightarrow> matcher \<Rightarrow> matcher" where
  "rx_opt_greedy a k s = (case a k s of Some r \<Rightarrow> Some r | None \<Rightarrow> k s)"

text \<open>
  The \<open>i\<close> flag without the \<open>u\<close> flag compares canonicalised code units. The pattern
  characters here are ASCII, and a code unit from 128 on is never canonicalised to an
  ASCII one, so only the ASCII letters need folding.
\<close>

definition canonicalize :: "nat \<Rightarrow> nat" where
  "canonicalize c = (if 97 \<le> c \<and> c \<le> 122 then c - 32 else c)"

fun rx_lit_ci :: "jsstring \<Rightarrow> matcher \<Rightarrow> matcher" where
  "rx_lit_ci [] k = k"
| "rx_lit_ci (p # ps) k = rx_char (\<lambda>c. canonicalize c = canonicalize p) (rx_lit_ci ps k)"

text \<open>The character classes of the four patterns: \<open>[\s\S]\<close>, \<open>[^>]\<close> and \<open>\s\<close>.\<close>

definition any_char :: "nat \<Rightarrow> bool" where
  "any_char c = True"

definition not_gt :: "nat \<Rightarrow> bool" where
  "not_gt c = (c \<noteq> 62)"

definition is_space :: "nat \<Rightarrow> bool" where
  "is_space c =
     (c = 9 \<or> c = 10 \<or> c = 11 \<or> c = 12 \<or> c = 13 \<or> c = 32 \<or> c = 160 \<or> c = 5760
      \<or> (8192 \<le> c \<and> c \<le> 8202) \<or> c = 8232 \<or> c = 8233 \<or> c = 8239 \<or> c = 8287
      \<or> c = 12288 \<or> c = 65279)"

text \<open>\<open>/<script[\s\S]*?>[\s\S]*?<\/script>/gi\<close>\<close>

definition re_script :: matcher where
  "re_script =
     rx_lit_ci (js ''<script'')
       (rx_star_lazy any_char
         (rx_char (\<lambda>c. c = 62)
           (rx_star_lazy any_char
             (rx_lit_ci (js ''</script>'') Some))))"

text \<open>\<open>/<style[\s\S]*?>[\s\S]*?<\/style>/gi\<close>\<close>

definition re_style :: matcher where
  "re_style =
     rx_lit_ci (js ''<style'')
       (rx_star_lazy any_char
         (rx_char (\<lambda>c. c = 62)
           (rx_star_lazy any_char
             (rx_lit_ci (js ''</style>'') Some))))"

text \<open>\<open>/<\/?[^>]+>/g\<close>\<close>

definition re_tag :: matcher where
  "re_tag =
     rx_char (\<lambda>c. c = 60)
       (rx_opt_greedy (rx_char (\<lambda>c. c = 47))
         (rx_plus_greedy not_gt
           (rx_char (\<lambda>c. c = 62) Some)))"

text \<open>\<open>/\s+/g\<close>\<close>

definition re_spaces :: matcher where
  "re_spaces = rx_plus_greedy is_space Some"

text \<open>
  \<open>s.replace(re, r)\<close> for a global pattern \<open>re\<close> and a replacement string \<open>r\<close> without
  \<open>$\<close>: the input is scanned from the left; where the pattern matches, the match is
  replaced and the scan goes on behind it; elsewhere the code unit is kept. The third
  argument counts the code units of the current match that are still to be skipped.
  After an empty match the scan advances by one code unit.
\<close>

fun replace_all :: "matcher \<Rightarrow> jsstring \<Rightarrow> nat \<Rightarrow> jsstring \<Rightarrow> jsstring" where
  "replace_all m r (Suc n) [] = []"
| "replace_all m r (Suc n) (c # cs) = replace_all m r n cs"
| "replace_all m r 0 [] = (case m [] of Some rest \<Rightarrow> r | None \<Rightarrow> [])"
| "replace_all m r 0 (c # cs) =
     (case m (c # cs) of
        None \<Rightarrow> c # replace_all m r 0 cs
      | Some rest \<Rightarrow>
          (if length rest < length (c # cs)
           then r @ replace_all m r (length cs - length rest) cs
           else r @ c # replace_all m r 0 cs))"

text \<open>\<open>String.prototype.trim\<close> removes white space and line terminators at both ends.\<close>

definition js_trim :: "jsstring \<Rightarrow> jsstring" where
  "js_trim s = rev (dropWhile is_space (rev (dropWhile is_space s)))"

section \<open>The host environment\<close>

text \<open>
  A URL object: the part before the query, and the list of its search parameters.
  \<open>searchParams.set\<close> overwrites the first parameter of that name and removes the
  others, or appends a new one.
\<close>

record url =
  before_query :: jsstring
  searchParams :: "(jsstring \<times> jsstring) list"

fun params_set :: "jsstring \<Rightarrow> jsstring \<Rightarrow> (jsstring \<times> jsstring) list \<Rightarrow> (jsstring \<times> jsstring) list" where
  "params_set k v [] = [(k, v)]"
| "params_set k v (p # ps) =
     (if fst p = k then (k, v) # filter (\<lambda>q. fst q \<noteq> k) ps else p # params_set k v ps)"

definition searchParams_set :: "jsstring \<Rightarrow> jsstring \<Rightarrow> url \<Rightarrow> url" where
  "searchParams_set k v u = u\<lparr>searchParams := params_set k v (searchParams u)\<rparr>"

text \<open>An outbound GET request, and what the network does with it.\<close>

record request =
  target :: url
  accept :: jsstring
  authorization :: "jsstring option"

datatype net_reply =
    ConnectionFailed
  | NoReply
  | Reply nat nat jsstring

text \<open>
  A JavaScript number, as \<open>Number(...)\<close> gives it for the timeout setting, and the delay
  that \<open>setTimeout\<close> of Node.js makes of it: a delay that is not between 1 and
  2147483647 (so also NaN) is set to 1, and a fraction of a millisecond is cut off.
\<close>

datatype jsnumber = NaN | PlusInfinity | MinusInfinity | Finite real

fun timer_delay :: "jsnumber \<Rightarrow> nat" where
  "timer_delay (Finite x) = (if 1 \<le> x \<and> x \<le> 2147483647 then nat \<lfloor>x\<rfloor> else 1)"
| "timer_delay n = 1"

text \<open>
  What the module takes from its surroundings. \<open>DRUPAL_JSONAPI_ENDPOINT\<close> is the parsed
  endpoint URL and \<open>DRUPAL_TIMEOUT_MS\<close> the number the abort timer is set with.
  \<open>fetchJson\<close> reads the identifier \<open>DRUPAL_BASIC_AUTH\<close>, which the module does not
  declare (it declares \<open>DRUPAL_BEARER_TOKEN\<close> and never uses it): the identifier
  resolves against the global object, and \<open>global_DRUPAL_BASIC_AUTH\<close> is what is found
  there, \<open>None\<close> when there is no such global, as in a Node.js process that runs this
  module alone. The network answers a request with \<open>Reply latency status body\<close>,
  with a connection failure, or never. \<open>JSON_parse\<close> is \<open>None\<close> where
  \<open>JSON.parse\<close> throws, \<open>Number_toString\<close> is the string of a number, and
  \<open>base64\<close> is \<open>Buffer.from(s).toString("base64")\<close>.
\<close>

record env =
  DRUPAL_JSONAPI_ENDPOINT :: url
  DRUPAL_TIMEOUT_MS :: jsnumber
  global_DRUPAL_BASIC_AUTH :: "jsstring option"
  network :: "request \<Rightarrow> net_reply"
  JSON_parse :: "jsstring \<Rightarrow> jsval option"
  Number_toString :: "int \<Rightarrow> jsstring"
  base64 :: "jsstring \<Rightarrow> jsstring"

section \<open>\<open>fetchJson\<close>\<close>

text \<open>The object that \<open>fetchJson\<close> returns; \<open>res_text\<close> is its \<open>text\<close> property.\<close>

record response =
  ok :: bool
  status :: nat
  json :: jsval
  res_text :: jsstring

text \<open>
  The result is paired with the list of the requests handed to \<open>fetch\<close>. The headers
  are built before \<open>fetch\<close> is called, so an unresolvable \<open>DRUPAL_BASIC_AUTH\<close> throws
  before any request. The timer aborts a request that has not delivered its body when
  the delay is over; \<open>fetch\<close> (or \<open>res.text()\<close>) then rejects with an AbortError.
  There is no \<open>catch\<close>: the \<open>finally\<close> clears the timer and the error goes to the
  caller. Only a failure of \<open>JSON.parse\<close> is caught, and leaves \<open>json\<close> null.
\<close>

text \<open>\<open>text ? JSON.parse(text) : null\<close>, inside its \<open>try\<close>.\<close>

definition parse_or_null :: "env \<Rightarrow> jsstring \<Rightarrow> jsval" where
  "parse_or_null w body_text =
     (if body_text = [] then JNull
      else case JSON_parse w body_text of Some v \<Rightarrow> v | None \<Rightarrow> JNull)"

text \<open>The request that \<open>fetch\<close> is called with, for a credential found in the global.\<close>

definition fetch_options :: "env \<Rightarrow> jsstring \<Rightarrow> url \<Rightarrow> request" where
  "fetch_options w cred u =
     \<lparr>target = u, accept = js ''application/vnd.api+json'',
      authorization = (if cred \<noteq> [] then Some (js ''Basic '' @ base64 w cred) else None)\<rparr>"

definition fetchJson :: "env \<Rightarrow> url \<Rightarrow> request list \<times> (error + response)" where
  "fetchJson w u =
     (case global_DRUPAL_BASIC_AUTH w of
        None \<Rightarrow> ([], Inl ReferenceError)
      | Some cred \<Rightarrow>
          (let rq = fetch_options w cred u
           in case network w rq of
                ConnectionFailed \<Rightarrow> ([rq], Inl TypeError)
              | NoReply \<Rightarrow> ([rq], Inl AbortError)
              | Reply latency st body_text \<Rightarrow>
                  if timer_delay (DRUPAL_TIMEOUT_MS w) \<le> latency then ([rq], Inl AbortError)
                  else ([rq], Inr \<lparr>ok = (200 \<le> st \<and> st \<le> 299), status = st,
                                    json = parse_or_null w body_text, res_text = body_text\<rparr>)))"

section \<open>\<open>stripHtml\<close>\<close>

text \<open>The chain of the four \<open>replace\<close> calls and \<open>trim\<close>.\<close>

definition strip_markup :: "jsstring \<Rightarrow> jsstring" where
  "strip_markup s =
     js_trim
       (replace_all re_spaces (js '' '') 0
         (replace_all re_tag (js '' '') 0
           (replace_all re_style [] 0
             (replace_all re_script [] 0 s))))"

text \<open>
  \<open>String(v)\<close> for a parsed value. An array is the strings of its elements joined by
  commas, with nothing for null and undefined. An object is \<open>[object Object]\<close>, unless
  it has an own \<open>toString\<close> property: that holds no function, and the conversion
  throws a TypeError.
\<close>

fun to_string :: "env \<Rightarrow> jsval \<Rightarrow> error + jsstring"
  and join_elements :: "env \<Rightarrow> jsval list \<Rightarrow> error + jsstring" where
  "to_string w JUndefined = Inr (js ''undefined'')"
| "to_string w JNull = Inr (js ''null'')"
| "to_string w (JBool b) = Inr (if b then js ''true'' else js ''false'')"
| "to_string w (JNum n) = Inr (Number_toString w n)"
| "to_string w (JStr s) = Inr s"
| "to_string w (JArr xs) = join_elements w xs"
| "to_string w (JObj kvs) =
     (if map_of kvs ''toString'' = None then Inr (js ''[object Object]'') else Inl TypeError)"
| "join_elements w [] = Inr []"
| "join_elements w (x # xs) =
     (case (if nullish x then Inr [] else to_string w x) of
        Inl e \<Rightarrow> Inl e
      | Inr a \<Rightarrow>
          (if xs = [] then Inr a
           else case join_elements w xs of Inl e \<Rightarrow> Inl e | Inr b \<Rightarrow> Inr (a @ js '','' @ b)))"

definition stripHtml :: "env \<Rightarrow> jsval \<Rightarrow> error + jsstring" where
  "stripHtml w html =
     (if \<not> truthy html then Inr []
      else bind_err (to_string w html) (\<lambda>s. Inr (strip_markup s)))"

section \<open>\<open>resolveIncludedNames\<close>\<close>

text \<open>The callback of \<open>included.find\<close>: \<open>x.type === ref.type && x.id === ref.id\<close>.\<close>

definition same_ref :: "jsval \<Rightarrow> jsval \<Rightarrow> error + bool" where
  "same_ref ref x =
     bind_err (get_prop x ''type'') (\<lambda>xt.
     bind_err (get_prop ref ''type'') (\<lambda>rt.
       if \<not> strict_eq xt rt then Inr False
       else bind_err (get_prop x ''id'') (\<lambda>xi.
            bind_err (get_prop ref ''id'') (\<lambda>ri. Inr (strict_eq xi ri)))))"

fun array_find :: "('a \<Rightarrow> error + bool) \<Rightarrow> 'a list \<Rightarrow> error + 'a option" where
  "array_find f [] = Inr None"
| "array_find f (x # xs) =
     (case f x of
        Inl e \<Rightarrow> Inl e
      | Inr b \<Rightarrow> if b then Inr (Some x) else array_find f xs)"

text \<open>
  \<open>resolveOne\<close>; a truthy \<open>included\<close> that is not an array has no \<open>find\<close> method, and
  calling it throws.
\<close>

definition resolveOne :: "jsval \<Rightarrow> jsval \<Rightarrow> error + jsval" where
  "resolveOne included ref =
     (case included of
        JArr xs \<Rightarrow>
          bind_err (array_find (same_ref ref) xs) (\<lambda>r.
            let found = (case r of None \<Rightarrow> JUndefined | Some x \<Rightarrow> x) in
            if \<not> truthy found then Inr JNull
            else Inr (js_or (opt_prop (own_prop found ''attributes'') ''name'')
                       (js_or (opt_prop (own_prop found ''attributes'') ''title'') JNull)))
      | _ \<Rightarrow> Inl TypeError)"

definition resolveIncludedNames :: "jsval \<Rightarrow> jsval \<Rightarrow> error + jsval" where
  "resolveIncludedNames payload relData =
     (if \<not> truthy (opt_prop payload ''included'') \<or> \<not> truthy relData then Inr JNull
      else
        let included = own_prop payload ''included'' in
        case relData of
          JArr refs \<Rightarrow>
            bind_err (map_err (resolveOne included) refs) (\<lambda>names.
              Inr (JArr (filter truthy names)))
        | _ \<Rightarrow> resolveOne included relData)"

section \<open>The query URLs\<close>

definition include_fields :: "jsstring list" where
  "include_fields =
     [js ''field_autore'', js ''field_tipologia'', js ''field_luogo'',
      js ''field_tecnica'', js ''field_materiale'', js ''field_schedatore'']"

text \<open>The identifier is a string (the tool's input schema), so \<open>String(numeroInventario)\<close> is the identifier.\<close>

definition buildOperaUrlWithFilterParams :: "env \<Rightarrow> jsstring \<Rightarrow> url" where
  "buildOperaUrlWithFilterParams w numeroInventario =
     searchParams_set (js ''include'') (js_join (js '','') include_fields)
       (searchParams_set (js ''filter[field_inventario]'') numeroInventario
         (searchParams_set (js ''page[limit]'') (js ''1'')
           (DRUPAL_JSONAPI_ENDPOINT w)))"

definition buildOperaUrlWithFilterParamsVerboseFallback :: "env \<Rightarrow> jsstring \<Rightarrow> url" where
  "buildOperaUrlWithFilterParamsVerboseFallback w numeroInventario =
     searchParams_set (js ''include'') (js_join (js '','') include_fields)
       (searchParams_set (js ''filter[inventario][condition][value]'') numeroInventario
         (searchParams_set (js ''filter[inventario][condition][operator]'') (js ''='')
           (searchParams_set (js ''filter[inventario][condition][path]'') (js ''field_inventario'')
             (searchParams_set (js ''page[limit]'') (js ''1'')
               (DRUPAL_JSONAPI_ENDPOINT w)))))"

section \<open>\<open>lookupOperaByInventario\<close>\<close>

record dimensioni =
  altezza :: jsval
  larghezza :: jsval
  diametro :: jsval
  spessore :: jsval

record descrizione =
  descrizione_text :: jsstring
  descrizione_html :: jsval

text \<open>The object returned with \<open>found: true\<close>; \<open>item_id\<close> and \<open>item_type\<close> are its \<open>id\<close> and \<open>type\<close>.\<close>

record resolved_item =
  item_id :: jsval
  item_type :: jsval
  title :: jsval
  numero_inventario :: jsval
  periodo :: jsval
  data_label :: jsval
  data_da :: jsval
  data_a :: jsval
  acquisizione :: jsval
  dimensioni :: dimensioni
  autore :: jsval
  tipologia :: jsval
  luogo :: jsval
  tecnica :: jsval
  materiale :: jsval
  schedatore :: jsval
  descrizione :: descrizione
  links :: jsval

text \<open>
  The three shapes of the returned object: \<open>{found: true, ...}\<close>,
  \<open>{found: false, error: null}\<close> and \<open>{found: false, error, details}\<close>.
\<close>

datatype lookup_result =
    Found resolved_item
  | NotFound
  | RequestFailed jsstring jsval

text \<open>\<open>Array.isArray(payload?.data) ? payload.data[0] : payload?.data\<close>\<close>

definition first_item :: "jsval \<Rightarrow> jsval" where
  "first_item payload =
     (case opt_prop payload ''data'' of
        JArr xs \<Rightarrow> (case xs of [] \<Rightarrow> JUndefined | x # rest \<Rightarrow> x)
      | d \<Rightarrow> d)"

text \<open>\<open>item.relationships?.f?.data\<close>, for an item that is not nullish.\<close>

definition relationship_data :: "jsval \<Rightarrow> string \<Rightarrow> jsval" where
  "relationship_data item f = opt_prop (opt_prop (own_prop item ''relationships'') f) ''data''"

text \<open>The part of \<open>lookupOperaByInventario\<close> after the requests: from \<open>if (!res.ok)\<close> on.\<close>

definition resolveResponse :: "env \<Rightarrow> response \<Rightarrow> error + lookup_result" where
  "resolveResponse w res =
     (if \<not> ok res then
        Inr (RequestFailed
              (js ''Drupal request failed ('' @ show_nat (status res) @ js '')'')
              (js_or (opt_prop (json res) ''errors'')
                (js_or (JStr (take 500 (res_text res))) JNull)))
      else
        let payload = json res;
            item = first_item payload
        in
        if \<not> truthy item then Inr NotFound
        else
          let a = js_or (own_prop item ''attributes'') (JObj []) in
          bind_err (resolveIncludedNames payload (relationship_data item ''field_autore'')) (\<lambda>autore'.
          bind_err (resolveIncludedNames payload (relationship_data item ''field_tipologia'')) (\<lambda>tipologia'.
          bind_err (resolveIncludedNames payload (relationship_data item ''field_luogo'')) (\<lambda>luogo'.
          bind_err (resolveIncludedNames payload (relationship_data item ''field_tecnica'')) (\<lambda>tecnica'.
          bind_err (resolveIncludedNames payload (relationship_data item ''field_materiale'')) (\<lambda>materiale'.
          bind_err (resolveIncludedNames payload (relationship_data item ''field_schedatore'')) (\<lambda>schedatore'.
          let descrizioneHtml =
                js_or (opt_prop (own_prop a ''field_descrizione'') ''processed'')
                  (js_or (opt_prop (own_prop a ''field_descrizione'') ''value'') (JStr []))
          in
          bind_err (stripHtml w descrizioneHtml) (\<lambda>descrizioneText.
          Inr (Found
            \<lparr>item_id = own_prop item ''id'',
             item_type = own_prop item ''type'',
             title = js_or (own_prop a ''title'') JNull,
             numero_inventario = js_or (own_prop a ''field_inventario'') JNull,
             periodo = js_or (own_prop a ''field_periodo'') JNull,
             data_label = js_or (own_prop a ''field_data_label'') JNull,
             data_da = js_coalesce (own_prop a ''field_data_0'') JNull,
             data_a = js_coalesce (own_prop a ''field_data_1'') JNull,
             acquisizione = js_or (own_prop a ''field_acquisizione'') JNull,
             dimensioni =
               \<lparr>altezza = js_coalesce (own_prop a ''field_altezza'') JNull,
                larghezza = js_coalesce (own_prop a ''field_larghezza'') JNull,
                diametro = js_coalesce (own_prop a ''field_diametro'') JNull,
                spessore = js_coalesce (own_prop a ''field_spessore'') JNull\<rparr>,
             autore = autore',
             tipologia = tipologia',
             luogo = luogo',
             tecnica = tecnica',
             materiale = materiale',
             schedatore = schedatore',
             descrizione =
               \<lparr>descrizione_text = descrizioneText, descrizione_html = descrizioneHtml\<rparr>,
             links = js_or (own_prop item ''links'') JNull\<rparr>)))))))))"

text \<open>The result is paired with the requests handed to \<open>fetch\<close>, in order.\<close>

definition lookupOperaByInventario :: "env \<Rightarrow> jsstring \<Rightarrow> request list \<times> (error + lookup_result)" where
  "lookupOperaByInventario w numeroInventario =
     (let buildUrl = buildOperaUrlWithFilterParams w numeroInventario in
      case fetchJson w buildUrl of
        (sent, Inl e) \<Rightarrow> (sent, Inl e)
      | (sent, Inr res) \<Rightarrow>
          if \<not> ok res \<and> (status res = 400 \<or> status res = 403) then
            (let verboseUrl = buildOperaUrlWithFilterParamsVerboseFallback w numeroInventario in
             case fetchJson w verboseUrl of
               (sent', Inl e) \<Rightarrow> (sent @ sent', Inl e)
             | (sent', Inr res') \<Rightarrow> (sent @ sent', resolveResponse w res'))
          else (sent, resolveResponse w res))"

section \<open>The session registry and the \<open>/mcp\<close> routes\<close>

text \<open>
  A session is the pair of a transport and a server, objects of the protocol library that
  are known here by a number. The library is outside the module: \<open>isInitializeRequest\<close>
  is its test of a message body, \<open>connect\<close> tells whether \<open>server.connect(transport)\<close>
  returns, and \<open>handleRequest\<close> tells what a transport does with a request: the
  callbacks it fires, in order (\<open>onsessioninitialized\<close> with the new session id,
  \<open>onclose\<close>), and whether it throws, and then whether the response headers were
  already sent.
\<close>

record session =
  transport :: nat
  server :: nat

datatype verb = POST | GET | DELETE

record http_request =
  mcp_session_id :: "jsstring option"
  body :: jsval

datatype event = SessionInitialized jsstring | TransportClosed

record handling =
  events :: "event list"
  threw :: "bool option"

record sdk =
  isInitializeRequest :: "jsval \<Rightarrow> bool"
  connect :: "nat \<Rightarrow> nat \<Rightarrow> bool"
  handleRequest :: "nat \<Rightarrow> verb \<Rightarrow> http_request \<Rightarrow> handling"

text \<open>The \<open>sessions\<close> map, and the next unused object number.\<close>

record state =
  sessions :: "jsstring \<rightharpoonup> session"
  fresh :: nat

datatype http_response =
    ByTransport nat
  | JsonRpcError nat int jsstring
  | PlainText nat jsstring

text \<open>
  The two callbacks of a transport, applied to the map; the second argument is the
  transport's own \<open>sessionId\<close>. \<open>onclose\<close> deletes it from the map if it is truthy.
\<close>

fun run_events :: "session \<Rightarrow> jsstring option \<Rightarrow> event list \<Rightarrow> (jsstring \<rightharpoonup> session) \<Rightarrow> (jsstring \<rightharpoonup> session)" where
  "run_events se sid [] m = m"
| "run_events se sid (SessionInitialized newSessionId # es) m =
     run_events se (Some newSessionId) es (m(newSessionId \<mapsto> se))"
| "run_events se sid (TransportClosed # es) m =
     run_events se sid es
       (case sid of None \<Rightarrow> m | Some i \<Rightarrow> if i \<noteq> [] then m(i := None) else m)"

text \<open>\<open>sessionId ? sessions.get(sessionId) : null\<close>: an empty header value is falsy.\<close>

definition truthy_header :: "jsstring option \<Rightarrow> bool" where
  "truthy_header h = (case h of None \<Rightarrow> False | Some sid \<Rightarrow> sid \<noteq> [])"

definition find_session :: "state \<Rightarrow> jsstring option \<Rightarrow> session option" where
  "find_session st h =
     (case h of None \<Rightarrow> None | Some sid \<Rightarrow> if sid \<noteq> [] then sessions st sid else None)"

text \<open>The \<open>catch\<close> of the POST route: a 500 answer unless the headers were sent.\<close>

definition caught :: "handling \<Rightarrow> http_response \<Rightarrow> http_response" where
  "caught h r =
     (case threw h of
        None \<Rightarrow> r
      | Some headersSent \<Rightarrow>
          if headersSent then r else JsonRpcError 500 (- 32603) (js ''Internal server error''))"

definition post_mcp :: "sdk \<Rightarrow> state \<Rightarrow> http_request \<Rightarrow> http_response \<times> state" where
  "post_mcp k st req =
     (let sessionId = mcp_session_id req in
      case find_session st sessionId of
        Some se \<Rightarrow>
          (let h = handleRequest k (transport se) POST req in
           (caught h (ByTransport (transport se)),
            st\<lparr>sessions := run_events se sessionId (events h) (sessions st)\<rparr>))
      | None \<Rightarrow>
          if \<not> truthy_header sessionId \<and> isInitializeRequest k (body req) then
            (let se = \<lparr>transport = Suc (fresh st), server = fresh st\<rparr>;
                 st1 = st\<lparr>fresh := fresh st + 2\<rparr>
             in if \<not> connect k (server se) (transport se)
                then (JsonRpcError 500 (- 32603) (js ''Internal server error''), st1)
                else
                  (let h = handleRequest k (transport se) POST req in
                   (caught h (ByTransport (transport se)),
                    st1\<lparr>sessions := run_events se None (events h) (sessions st1)\<rparr>)))
          else
            (JsonRpcError 400 (- 32000) (js ''Bad Request: No valid session ID provided''), st))"

text \<open>The GET and DELETE routes have no \<open>catch\<close>: what the transport throws is thrown on.\<close>

definition forward_mcp :: "verb \<Rightarrow> sdk \<Rightarrow> state \<Rightarrow> http_request \<Rightarrow> (error + http_response) \<times> state" where
  "forward_mcp v k st req =
     (let sessionId = mcp_session_id req in
      case find_session st sessionId of
        None \<Rightarrow> (Inr (PlainText 400 (js ''Invalid or missing session ID'')), st)
      | Some se \<Rightarrow>
          (let h = handleRequest k (transport se) v req in
           ((case threw h of None \<Rightarrow> Inr (ByTransport (transport se)) | Some b \<Rightarrow> Inl OtherError),
            st\<lparr>sessions := run_events se sessionId (events h) (sessions st)\<rparr>)))"

definition get_mcp :: "sdk \<Rightarrow> state \<Rightarrow> http_request \<Rightarrow> (error + http_response) \<times> state" where
  "get_mcp = forward_mcp GET"

definition delete_mcp :: "sdk \<Rightarrow> state \<Rightarrow> http_request \<Rightarrow> (error + http_response) \<times> state" where
  "delete_mcp = forward_mcp DELETE"

section \<open>Notions used in the statements\<close>

subsection \<open>Markup stripping\<close>



text \<open>
  A string is a given ASCII text up to the case of its letters: each code unit is the
  one of the text, or the capital of a small letter of the text.
\<close>

definition letter_case_variant :: "nat \<Rightarrow> nat \<Rightarrow> bool" where
  "letter_case_variant x p = (x = p \<or> (97 \<le> p \<and> p \<le> 122 \<and> x + 32 = p))"

definition written_as :: "jsstring \<Rightarrow> string \<Rightarrow> bool" where
  "written_as xs lit = list_all2 letter_case_variant xs (js lit)"

text \<open>Every white-space code unit is a single space that stands alone.\<close>

fun collapsed :: "jsstring \<Rightarrow> bool" where
  "collapsed [] = True"
| "collapsed [c] = (is_space c \<longrightarrow> c = 32)"
| "collapsed (c # d # cs) = ((is_space c \<longrightarrow> c = 32 \<and> \<not> is_space d) \<and> collapsed (d # cs))"

subsection \<open>Relationship resolution\<close>

text \<open>
  What \<open>resolveOne\<close> computes on a list of resources none of which is null: the first
  resource with the type and the id of the reference, and its \<open>name\<close> attribute if
  truthy, else its \<open>title\<close> attribute if truthy, else null.
\<close>

definition ref_matches :: "jsval \<Rightarrow> jsval \<Rightarrow> bool" where
  "ref_matches ref x =
     (strict_eq (own_prop x ''type'') (own_prop ref ''type'') \<and>
      strict_eq (own_prop x ''id'') (own_prop ref ''id''))"

definition display_name :: "jsval \<Rightarrow> jsval" where
  "display_name found =
     (let n = opt_prop (own_prop found ''attributes'') ''name'';
          t = opt_prop (own_prop found ''attributes'') ''title''
      in if truthy n then n else if truthy t then t else JNull)"

definition resolved_name :: "jsval list \<Rightarrow> jsval \<Rightarrow> jsval" where
  "resolved_name xs ref =
     (case find (ref_matches ref) xs of None \<Rightarrow> JNull | Some found \<Rightarrow> display_name found)"

text \<open>
  The display name in the words of the specification: the \<open>name\<close> attribute if
  present, else the \<open>title\<close> attribute, else null.
\<close>

definition spec_display_name :: "jsval \<Rightarrow> jsval" where
  "spec_display_name found =
     (let n = opt_prop (own_prop found ''attributes'') ''name'';
          t = opt_prop (own_prop found ''attributes'') ''title''
      in if n \<noteq> JUndefined then n else if t \<noteq> JUndefined then t else JNull)"

subsection \<open>The lookup\<close>

definition retry_wanted :: "response \<Rightarrow> bool" where
  "retry_wanted res = (\<not> ok res \<and> (status res = 400 \<or> status res = 403))"

text \<open>The response a lookup ends with: the first one, or the second after a retry.\<close>

definition final_response :: "env \<Rightarrow> jsstring \<Rightarrow> response \<Rightarrow> bool" where
  "final_response w i res =
     (\<exists>res1. snd (fetchJson w (buildOperaUrlWithFilterParams w i)) = Inr res1 \<and>
        (if retry_wanted res1
         then snd (fetchJson w (buildOperaUrlWithFilterParamsVerboseFallback w i)) = Inr res
         else res = res1))"

text \<open>
  The diagnostic detail in the words of the specification: the structured error list if
  present, else the first 500 characters of the raw response body.
\<close>

definition spec_details :: "response \<Rightarrow> jsval" where
  "spec_details res =
     (if truthy (opt_prop (json res) ''errors'') then opt_prop (json res) ''errors''
      else JStr (take 500 (res_text res)))"

text \<open>
  A document on which the mapping does not throw: the side-loaded resources are absent
  or a list without null, no list of references holds null, and the description has a
  string: it is not an object with an own \<open>toString\<close> property, nor an array that
  holds one.
\<close>

fun printable :: "jsval \<Rightarrow> bool" where
  "printable (JArr xs) = (\<forall>x\<in>set xs. printable x)"
| "printable (JObj kvs) = (map_of kvs ''toString'' = None)"
| "printable v = True"

definition relationship_fields :: "string list" where
  "relationship_fields =
     [''field_autore'', ''field_tipologia'', ''field_luogo'', ''field_tecnica'',
      ''field_materiale'', ''field_schedatore'']"

definition safe_refs :: "jsval \<Rightarrow> bool" where
  "safe_refs relData = (case relData of JArr refs \<Rightarrow> \<forall>r\<in>set refs. \<not> nullish r | _ \<Rightarrow> True)"

definition safe_included :: "jsval \<Rightarrow> bool" where
  "safe_included payload =
     (case opt_prop payload ''included'' of
        JArr xs \<Rightarrow> \<forall>x\<in>set xs. \<not> nullish x
      | v \<Rightarrow> \<not> truthy v)"

definition description_of :: "jsval \<Rightarrow> jsval" where
  "description_of item =
     (let a = js_or (own_prop item ''attributes'') (JObj []) in
      js_or (opt_prop (own_prop a ''field_descrizione'') ''processed'')
        (js_or (opt_prop (own_prop a ''field_descrizione'') ''value'') (JStr [])))"

definition safe_document :: "jsval \<Rightarrow> bool" where
  "safe_document payload =
     (safe_included payload \<and>
      (\<forall>f\<in>set relationship_fields. safe_refs (relationship_data (first_item payload) f)) \<and>
      printable (description_of (first_item payload)))"

text \<open>
  A reply that arrives before the timer fires, with a status that is not a success or
  with such a document; one that arrives in time with the status 400 or 403; and one
  that does not arrive in time.
\<close>

definition answers_safely :: "env \<Rightarrow> net_reply \<Rightarrow> bool" where
  "answers_safely w r =
     (case r of
        Reply latency st body_text \<Rightarrow>
          latency < timer_delay (DRUPAL_TIMEOUT_MS w) \<and>
          (200 \<le> st \<and> st \<le> 299 \<longrightarrow> safe_document (parse_or_null w body_text))
      | _ \<Rightarrow> False)"

definition rejects_filter :: "env \<Rightarrow> net_reply \<Rightarrow> bool" where
  "rejects_filter w r =
     (case r of
        Reply latency st body_text \<Rightarrow>
          latency < timer_delay (DRUPAL_TIMEOUT_MS w) \<and> (st = 400 \<or> st = 403)
      | _ \<Rightarrow> False)"

definition too_late :: "env \<Rightarrow> net_reply \<Rightarrow> bool" where
  "too_late w r =
     (case r of
        NoReply \<Rightarrow> True
      | Reply latency st body_text \<Rightarrow> timer_delay (DRUPAL_TIMEOUT_MS w) \<le> latency
      | ConnectionFailed \<Rightarrow> False)"

text \<open>The two requests of a lookup, for a credential found in the global.\<close>

definition first_request :: "env \<Rightarrow> jsstring \<Rightarrow> jsstring \<Rightarrow> request" where
  "first_request w cred i = fetch_options w cred (buildOperaUrlWithFilterParams w i)"

definition second_request :: "env \<Rightarrow> jsstring \<Rightarrow> jsstring \<Rightarrow> request" where
  "second_request w cred i = fetch_options w cred (buildOperaUrlWithFilterParamsVerboseFallback w i)"

section \<open>Concrete inputs\<close>

text \<open>
  An environment with the default timeout of 10000 ms. Its first argument is what the
  global object holds for \<open>DRUPAL_BASIC_AUTH\<close>.
\<close>

definition endpoint_demo :: url where
  "endpoint_demo =
     \<lparr>before_query = js ''https://drupal.example/jsonapi/node/opera'', searchParams = []\<rparr>"

definition env_demo :: "jsstring option \<Rightarrow> (request \<Rightarrow> net_reply) \<Rightarrow> (jsstring \<Rightarrow> jsval option) \<Rightarrow> env" where
  "env_demo auth net parse =
     \<lparr>DRUPAL_JSONAPI_ENDPOINT = endpoint_demo, DRUPAL_TIMEOUT_MS = Finite 10000,
      global_DRUPAL_BASIC_AUTH = auth, network = net, JSON_parse = parse,
      Number_toString = (\<lambda>n. if n < 0 then 45 # show_nat (nat (- n)) else show_nat (nat n)),
      base64 = (\<lambda>s. s)\<rparr>"

text \<open>Three response bodies and the documents they parse to.\<close>

definition vase_text :: jsstring where
  "vase_text = js ''{\"data\":[{\"id\":\"1\",\"type\":\"node--opera\",\"attributes\":{\"title\":\"Vase\",\"field_inventario\":\"10220\"}}]}''"

definition vase_doc :: jsval where
  "vase_doc =
     JObj [(''data'', JArr [JObj [(''id'', JStr (js ''1'')), (''type'', JStr (js ''node--opera'')),
       (''attributes'', JObj [(''title'', JStr (js ''Vase'')),
                              (''field_inventario'', JStr (js ''10220''))])]])]"

definition errors_text :: jsstring where
  "errors_text = js ''{\"errors\":[{\"status\":\"404\"}]}''"

definition errors_doc :: jsval where
  "errors_doc = JObj [(''errors'', JArr [JObj [(''status'', JStr (js ''404''))]])]"

definition no_data_text :: jsstring where
  "no_data_text = js ''{\"data\":[]}''"

definition no_data_doc :: jsval where
  "no_data_doc = JObj [(''data'', JArr [])]"

definition demo_parse :: "jsstring \<Rightarrow> jsval option" where
  "demo_parse s =
     (if s = vase_text then Some vase_doc
      else if s = errors_text then Some errors_doc
      else if s = no_data_text then Some no_data_doc
      else None)"

definition vase_item :: resolved_item where
  "vase_item =
     \<lparr>item_id = JStr (js ''1''), item_type = JStr (js ''node--opera''),
      title = JStr (js ''Vase''), numero_inventario = JStr (js ''10220''),
      periodo = JNull, data_label = JNull, data_da = JNull, data_a = JNull, acquisizione = JNull,
      dimensioni = \<lparr>altezza = JNull, larghezza = JNull, diametro = JNull, spessore = JNull\<rparr>,
      autore = JNull, tipologia = JNull, luogo = JNull, tecnica = JNull, materiale = JNull,
      schedatore = JNull,
      descrizione = \<lparr>descrizione_text = [], descrizione_html = JStr []\<rparr>,
      links = JNull\<rparr>"

text \<open>A repository that rejects the compact filter with 400 and answers the verbose query with 404.\<close>

definition retry_net :: "request \<Rightarrow> net_reply" where
  "retry_net rq =
     (if map_of (searchParams (target rq)) (js ''filter[field_inventario]'') \<noteq> None
      then Reply 50 400 (js ''bad filter'')
      else Reply 60 404 errors_text)"

text \<open>
  Repositories that reject the compact filter with 403 and then answer the verbose query
  too late, or not at all because the connection fails.
\<close>

definition retry_late_net :: "request \<Rightarrow> net_reply" where
  "retry_late_net rq =
     (if map_of (searchParams (target rq)) (js ''filter[field_inventario]'') \<noteq> None
      then Reply 50 403 (js ''forbidden'')
      else Reply 20000 200 vase_text)"

definition retry_failed_net :: "request \<Rightarrow> net_reply" where
  "retry_failed_net rq =
     (if map_of (searchParams (target rq)) (js ''filter[field_inventario]'') \<noteq> None
      then Reply 50 403 (js ''forbidden'')
      else ConnectionFailed)"

text \<open>An environment whose timeout setting is above the largest delay of a timer.\<close>

definition env_overlong :: env where
  "env_overlong =
     (env_demo (Some []) (\<lambda>rq. Reply 50 200 vase_text) demo_parse)
       \<lparr>DRUPAL_TIMEOUT_MS := Finite 3000000000\<rparr>"

text \<open>A document whose item has attributes that are zero or empty.\<close>

definition zero_doc :: jsval where
  "zero_doc =
     JObj [(''data'', JObj [(''id'', JStr (js ''7'')), (''type'', JStr (js ''node--opera'')),
       (''attributes'', JObj [(''title'', JStr []), (''field_inventario'', JNum 0),
          (''field_periodo'', JStr (js ''XIX'')), (''field_data_0'', JNum 0),
          (''field_altezza'', JNum 0), (''field_larghezza'', JNull),
          (''field_diametro'', JNum 12)])])]"

definition zero_item :: resolved_item where
  "zero_item =
     \<lparr>item_id = JStr (js ''7''), item_type = JStr (js ''node--opera''),
      title = JNull, numero_inventario = JNull,
      periodo = JStr (js ''XIX''), data_label = JNull, data_da = JNum 0, data_a = JNull,
      acquisizione = JNull,
      dimensioni = \<lparr>altezza = JNum 0, larghezza = JNull, diametro = JNum 12, spessore = JNull\<rparr>,
      autore = JNull, tipologia = JNull, luogo = JNull, tecnica = JNull, materiale = JNull,
      schedatore = JNull,
      descrizione = \<lparr>descrizione_text = [], descrizione_html = JStr []\<rparr>,
      links = JNull\<rparr>"

text \<open>Side-loaded taxonomy terms and references to them.\<close>

definition term_resource :: "string \<Rightarrow> (string \<times> jsval) list \<Rightarrow> jsval" where
  "term_resource i attrs =
     JObj [(''type'', JStr (js ''taxonomy_term'')), (''id'', JStr (js i)), (''attributes'', JObj attrs)]"

definition term_ref :: "string \<Rightarrow> jsval" where
  "term_ref i = JObj [(''type'', JStr (js ''taxonomy_term'')), (''id'', JStr (js i))]"

definition demo_included :: "jsval list" where
  "demo_included =
     [term_resource ''A'' [(''name'', JStr []), (''title'', JStr (js ''T''))],
      term_resource ''X'' [(''name'', JStr (js ''Oil''))],
      term_resource ''C'' [(''name'', JStr []), (''title'', JStr [])]]"

definition demo_payload :: jsval where
  "demo_payload = JObj [(''data'', JArr []), (''included'', JArr demo_included)]"

text \<open>A protocol library, two message bodies and two states of the registry.\<close>

definition sdk_demo :: sdk where
  "sdk_demo =
     \<lparr>isInitializeRequest = (\<lambda>b. own_prop b ''method'' = JStr (js ''initialize'')),
      connect = (\<lambda>s t. True),
      handleRequest = (\<lambda>t v r.
        \<lparr>events = (if v = POST \<and> own_prop (body r) ''method'' = JStr (js ''initialize'')
                    then [SessionInitialized (js ''s1'')] else []),
         threw = None\<rparr>)\<rparr>"

definition init_body :: jsval where
  "init_body =
     JObj [(''jsonrpc'', JStr (js ''2.0'')), (''id'', JNum 1), (''method'', JStr (js ''initialize''))]"

definition call_body :: jsval where
  "call_body =
     JObj [(''jsonrpc'', JStr (js ''2.0'')), (''id'', JNum 2), (''method'', JStr (js ''tools/call''))]"

definition st_empty :: state where
  "st_empty = \<lparr>sessions = Map.empty, fresh = 0\<rparr>"

definition st_one :: state where
  "st_one = \<lparr>sessions = [js ''s1'' \<mapsto> \<lparr>transport = 1, server = 0\<rparr>], fresh = 2\<rparr>"

section \<open>Markup stripping is idempotent\<close>
























declare replace_all.simps [simp del]


















lemma space_32: "is_space 32"
  by (simp add: is_space_def)

lemma collapsed_Cons: "collapsed (c # cs) \<Longrightarrow> collapsed cs"
  by (cases cs) simp_all



















lemmas regex_defs = re_script_def re_style_def re_tag_def re_spaces_def rx_char_def
  rx_plus_greedy_def rx_opt_greedy_def canonicalize_def any_char_def not_gt_def is_space_def


lemma strip_markup_style_example:
  "strip_markup (js ''<style>p{color:red}</style><b>a</b>  b'') = js ''a b''"
  by (simp add: strip_markup_def js_def js_trim_def regex_defs replace_all.simps)

lemma variant_canonical: "letter_case_variant x p \<Longrightarrow> canonicalize x = canonicalize p"
  by (auto simp: letter_case_variant_def canonicalize_def)

lemma rx_lit_ci_variants:
  "list_all2 letter_case_variant xs ps \<Longrightarrow> rx_lit_ci ps k (xs @ t) = k t"
  by (induction xs ps rule: list_all2_induct) (simp_all add: rx_char_def variant_canonical)

lemma rx_lit_ci_written: "written_as xs lit \<Longrightarrow> rx_lit_ci (js lit) k (xs @ t) = k t"
  by (simp add: written_as_def rx_lit_ci_variants)
















section \<open>Relationship resolution\<close>

lemma same_ref_safe:
  "\<not> nullish x \<Longrightarrow> \<not> nullish ref \<Longrightarrow> same_ref ref x = Inr (ref_matches ref x)"
  by (simp add: same_ref_def get_prop_def bind_err_def ref_matches_def)

lemma array_find_safe:
  "\<forall>x\<in>set xs. \<not> nullish x \<Longrightarrow> \<not> nullish ref \<Longrightarrow>
   array_find (same_ref ref) xs = Inr (find (ref_matches ref) xs)"
  by (induction xs) (simp_all add: same_ref_safe)

lemma truthy_not_nullish: "truthy v \<Longrightarrow> \<not> nullish v"
  by (cases v) simp_all

lemma display_name_falsy: "\<not> truthy found \<Longrightarrow> display_name found = JNull"
  by (cases found) (simp_all add: display_name_def opt_prop_def)

lemma display_name_cases: "display_name found = JNull \<or> truthy (display_name found)"
  by (simp add: display_name_def Let_def)

lemma resolved_name_cases: "resolved_name xs ref = JNull \<or> truthy (resolved_name xs ref)"
  using display_name_cases by (simp add: resolved_name_def split: option.splits)

lemma resolveOne_safe:
  assumes "\<forall>x\<in>set xs. \<not> nullish x" and "\<not> nullish ref"
  shows "resolveOne (JArr xs) ref = Inr (resolved_name xs ref)"
proof (cases "find (ref_matches ref) xs")
  case None
  then show ?thesis using assms
    by (simp add: resolveOne_def array_find_safe bind_err_def resolved_name_def)
next
  case (Some found)
  show ?thesis
  proof (cases "truthy found")
    case True
    then show ?thesis using assms Some
      by (simp add: resolveOne_def array_find_safe bind_err_def resolved_name_def display_name_def js_or_def Let_def)
  next
    case False
    then show ?thesis using assms Some
      by (simp add: resolveOne_def array_find_safe bind_err_def resolved_name_def display_name_falsy)
  qed
qed

lemma map_err_safe:
  "\<forall>r\<in>set refs. f r = Inr (g r) \<Longrightarrow> map_err f refs = Inr (map g refs)"
  by (induction refs) simp_all

lemma filter_truthy_names:
  "filter truthy (map (resolved_name xs) refs) = filter (\<lambda>v. v \<noteq> JNull) (map (resolved_name xs) refs)"
proof (rule filter_cong)
  show "map (resolved_name xs) refs = map (resolved_name xs) refs" by simp
next
  fix v assume "v \<in> set (map (resolved_name xs) refs)"
  then obtain r where "v = resolved_name xs r" by auto
  then show "truthy v = (v \<noteq> JNull)" using resolved_name_cases [of xs r] by auto
qed

text \<open>
  C3, amended. Relationship resolution returns null when the document has no side-loaded
  resources or the reference is absent. On a list of side-loaded resources without null,
  the name of a reference is that of the first resource with its type and id: the
  \<open>name\<close> attribute if it is truthy, else the \<open>title\<close> attribute if it is truthy,
  else null; it is null when no resource matches. A single reference yields that name;
  a list of references yields the list of the names that are not null, in the order of
  the references.
\<close>

theorem resolveIncludedNames_names:
  "(\<not> truthy (opt_prop payload ''included'') \<or> \<not> truthy relData \<longrightarrow>
      resolveIncludedNames payload relData = Inr JNull)
   \<and> (opt_prop payload' ''included'' = JArr xs \<and> (\<forall>x\<in>set xs. \<not> nullish x) \<and>
       truthy ref \<and> (\<forall>l. ref \<noteq> JArr l) \<longrightarrow>
      resolveIncludedNames payload' ref = Inr (resolved_name xs ref))
   \<and> (opt_prop payload'' ''included'' = JArr ys \<and> (\<forall>x\<in>set ys. \<not> nullish x) \<and>
       (\<forall>r\<in>set refs. \<not> nullish r) \<longrightarrow>
      resolveIncludedNames payload'' (JArr refs) =
        Inr (JArr (filter (\<lambda>v. v \<noteq> JNull) (map (resolved_name ys) refs))))"
proof (intro conjI impI)
  assume "\<not> truthy (opt_prop payload ''included'') \<or> \<not> truthy relData"
  then show "resolveIncludedNames payload relData = Inr JNull"
    by (auto simp: resolveIncludedNames_def)
next
  assume h: "opt_prop payload' ''included'' = JArr xs \<and> (\<forall>x\<in>set xs. \<not> nullish x) \<and>
       truthy ref \<and> (\<forall>l. ref \<noteq> JArr l)"
  then have inc: "own_prop payload' ''included'' = JArr xs"
    by (auto simp: opt_prop_def split: if_splits)
  have "resolveIncludedNames payload' ref = resolveOne (JArr xs) ref"
    using h inc by (cases ref) (simp_all add: resolveIncludedNames_def)
  then show "resolveIncludedNames payload' ref = Inr (resolved_name xs ref)"
    using h by (simp add: resolveOne_safe truthy_not_nullish)
next
  assume h: "opt_prop payload'' ''included'' = JArr ys \<and> (\<forall>x\<in>set ys. \<not> nullish x) \<and>
       (\<forall>r\<in>set refs. \<not> nullish r)"
  then have inc: "own_prop payload'' ''included'' = JArr ys"
    by (auto simp: opt_prop_def split: if_splits)
  have "map_err (resolveOne (JArr ys)) refs = Inr (map (resolved_name ys) refs)"
    using h by (intro map_err_safe) (simp add: resolveOne_safe)
  then show "resolveIncludedNames payload'' (JArr refs) =
        Inr (JArr (filter (\<lambda>v. v \<noteq> JNull) (map (resolved_name ys) refs)))"
    using h inc by (simp add: resolveIncludedNames_def bind_err_def filter_truthy_names)
qed


lemmas demo_defs = term_resource_def term_ref_def demo_included_def demo_payload_def
  ref_matches_def display_name_def resolved_name_def strict_eq_def opt_prop_def js_def

lemma demo_names:
  "resolved_name demo_included (term_ref ''A'') = JStr (js ''T'')"
  "resolved_name demo_included (term_ref ''X'') = JStr (js ''Oil'')"
  "resolved_name demo_included (term_ref ''C'') = JNull"
  "resolved_name demo_included (term_ref ''Z'') = JNull"
  by (simp_all add: demo_defs)

text \<open>
  C3, as stated, fails: the resource matched by the reference has a \<open>name\<close> attribute,
  the empty string, and the resolved name is not that attribute but the \<open>title\<close>.
\<close>

theorem resolveIncludedNames_present_empty_name:
  "resolveIncludedNames demo_payload (term_ref ''A'') = Inr (JStr (js ''T''))
   \<and> spec_display_name (term_resource ''A'' [(''name'', JStr []), (''title'', JStr (js ''T''))]) = JStr []"
  by (simp add: resolveIncludedNames_def resolveOne_def same_ref_def get_prop_def bind_err_def
        js_or_def spec_display_name_def demo_defs)

theorem resolveIncludedNames_names_witness:
  "resolveIncludedNames (JObj [(''data'', JArr [])]) (term_ref ''X'') = Inr JNull
   \<and> resolveIncludedNames demo_payload (term_ref ''X'') = Inr (JStr (js ''Oil''))
   \<and> resolveIncludedNames demo_payload (JArr [term_ref ''X'', term_ref ''Z'', term_ref ''A'']) =
       Inr (JArr [JStr (js ''Oil''), JStr (js ''T'')])"
proof -
  have 1: "\<not> truthy (opt_prop (JObj [(''data'', JArr [])]) ''included'')"
    by (simp add: opt_prop_def)
  have 2: "opt_prop demo_payload ''included'' = JArr demo_included"
    by (simp add: demo_payload_def opt_prop_def)
  have 3: "\<forall>x\<in>set demo_included. \<not> nullish x"
    by (simp add: demo_included_def term_resource_def)
  have 4: "truthy (term_ref ''X'') \<and> (\<forall>l. term_ref ''X'' \<noteq> JArr l)"
    by (simp add: term_ref_def)
  have 5: "\<forall>r\<in>set [term_ref ''X'', term_ref ''Z'', term_ref ''A'']. \<not> nullish r"
    by (simp add: term_ref_def)
  show ?thesis
    using resolveIncludedNames_names [of "JObj [(''data'', JArr [])]" "term_ref ''X''" demo_payload demo_included
                 "term_ref ''X''" demo_payload demo_included
                 "[term_ref ''X'', term_ref ''Z'', term_ref ''A'']"] 1 2 3 4 5
    by (simp add: demo_names)
qed

text \<open>
  C10. An empty \<open>name\<close> attribute counts as absent: the name of a matched resource
  whose \<open>name\<close> is the empty string is its \<open>title\<close> attribute if that is truthy,
  else null. In the list form the result holds the resolved names that are truthy:
  every falsy one is dropped, so neither null nor the empty string is an entry.
\<close>

theorem resolveIncludedNames_falsy_names:
  "(opt_prop payload ''included'' = JArr xs \<and> (\<forall>x\<in>set xs. \<not> nullish x) \<and>
    truthy ref \<and> (\<forall>l. ref \<noteq> JArr l) \<and> find (ref_matches ref) xs = Some found \<and>
    opt_prop (own_prop found ''attributes'') ''name'' = JStr [] \<longrightarrow>
      resolveIncludedNames payload ref =
        Inr (if truthy (opt_prop (own_prop found ''attributes'') ''title'')
             then opt_prop (own_prop found ''attributes'') ''title'' else JNull))
   \<and> (truthy (opt_prop payload' ''included'') \<and>
       map_err (resolveOne (own_prop payload' ''included'')) refs = Inr names \<longrightarrow>
      resolveIncludedNames payload' (JArr refs) = Inr (JArr (filter truthy names)) \<and>
      JNull \<notin> set (filter truthy names) \<and> JStr [] \<notin> set (filter truthy names))"
proof (rule conjI; rule impI)
  assume h: "opt_prop payload ''included'' = JArr xs \<and> (\<forall>x\<in>set xs. \<not> nullish x) \<and>
    truthy ref \<and> (\<forall>l. ref \<noteq> JArr l) \<and> find (ref_matches ref) xs = Some found \<and>
    opt_prop (own_prop found ''attributes'') ''name'' = JStr []"
  then have inc: "own_prop payload ''included'' = JArr xs"
    by (auto simp: opt_prop_def split: if_splits)
  have "resolveIncludedNames payload ref = resolveOne (JArr xs) ref"
    using h inc by (cases ref) (simp_all add: resolveIncludedNames_def)
  then have "resolveIncludedNames payload ref = Inr (resolved_name xs ref)"
    using h by (simp add: resolveOne_safe truthy_not_nullish)
  then show "resolveIncludedNames payload ref =
        Inr (if truthy (opt_prop (own_prop found ''attributes'') ''title'')
             then opt_prop (own_prop found ''attributes'') ''title'' else JNull)"
    using h by (simp add: resolved_name_def display_name_def)
next
  assume h: "truthy (opt_prop payload' ''included'') \<and>
       map_err (resolveOne (own_prop payload' ''included'')) refs = Inr names"
  then show "resolveIncludedNames payload' (JArr refs) = Inr (JArr (filter truthy names)) \<and>
      JNull \<notin> set (filter truthy names) \<and> JStr [] \<notin> set (filter truthy names)"
    by (auto simp: resolveIncludedNames_def bind_err_def)
qed

theorem resolveIncludedNames_falsy_names_witness:
  "resolveIncludedNames demo_payload (term_ref ''A'') = Inr (JStr (js ''T''))
   \<and> resolveIncludedNames demo_payload (JArr [term_ref ''X'', term_ref ''C'', term_ref ''Z'', term_ref ''A'']) =
       Inr (JArr [JStr (js ''Oil''), JStr (js ''T'')])"
proof -
  let ?a = "term_resource ''A'' [(''name'', JStr []), (''title'', JStr (js ''T''))]"
  let ?refs = "[term_ref ''X'', term_ref ''C'', term_ref ''Z'', term_ref ''A'']"
  let ?names = "[JStr (js ''Oil''), JNull, JNull, JStr (js ''T'')]"
  have 2: "opt_prop demo_payload ''included'' = JArr demo_included"
    by (simp add: demo_payload_def opt_prop_def)
  have 3: "\<forall>x\<in>set demo_included. \<not> nullish x"
    by (simp add: demo_included_def term_resource_def)
  have 4: "truthy (term_ref ''A'') \<and> (\<forall>l. term_ref ''A'' \<noteq> JArr l)"
    by (simp add: term_ref_def)
  have 5: "find (ref_matches (term_ref ''A'')) demo_included = Some ?a"
    by (simp add: demo_defs)
  have 6: "opt_prop (own_prop ?a ''attributes'') ''name'' = JStr []"
    by (simp add: demo_defs)
  have 7: "opt_prop (own_prop ?a ''attributes'') ''title'' = JStr (js ''T'')"
    by (simp add: demo_defs)
  have 8: "truthy (opt_prop demo_payload ''included'')"
    using 2 by simp
  have "map_err (resolveOne (JArr demo_included)) ?refs = Inr (map (resolved_name demo_included) ?refs)"
    by (intro map_err_safe) (simp add: resolveOne_safe 3 term_ref_def)
  then have 9: "map_err (resolveOne (own_prop demo_payload ''included'')) ?refs = Inr ?names"
    by (simp add: demo_names demo_payload_def)
  show ?thesis
    using resolveIncludedNames_falsy_names [of demo_payload demo_included "term_ref ''A''" ?a demo_payload ?refs ?names]
      2 3 4 5 6 7 8 9
    by (simp add: js_def)
qed

section \<open>The lookup\<close>

lemma lookup_without_global:
  "global_DRUPAL_BASIC_AUTH w = None \<Longrightarrow> lookupOperaByInventario w i = ([], Inl ReferenceError)"
  by (simp add: lookupOperaByInventario_def fetchJson_def)

lemma lookup_snd:
  "snd (lookupOperaByInventario w i) =
     (case snd (fetchJson w (buildOperaUrlWithFilterParams w i)) of
        Inl e \<Rightarrow> Inl e
      | Inr res \<Rightarrow>
          if retry_wanted res then
            (case snd (fetchJson w (buildOperaUrlWithFilterParamsVerboseFallback w i)) of
               Inl e \<Rightarrow> Inl e
             | Inr res' \<Rightarrow> resolveResponse w res')
          else resolveResponse w res)"
proof -
  obtain s1 r1 where f1: "fetchJson w (buildOperaUrlWithFilterParams w i) = (s1, r1)"
    by (cases "fetchJson w (buildOperaUrlWithFilterParams w i)")
  obtain s2 r2 where f2: "fetchJson w (buildOperaUrlWithFilterParamsVerboseFallback w i) = (s2, r2)"
    by (cases "fetchJson w (buildOperaUrlWithFilterParamsVerboseFallback w i)")
  show ?thesis using f1 f2
    by (cases r1; cases r2) (simp_all add: lookupOperaByInventario_def Let_def retry_wanted_def)
qed

lemma lookup_fst:
  "fst (lookupOperaByInventario w i) =
     (case snd (fetchJson w (buildOperaUrlWithFilterParams w i)) of
        Inl e \<Rightarrow> fst (fetchJson w (buildOperaUrlWithFilterParams w i))
      | Inr res \<Rightarrow>
          if retry_wanted res then
            fst (fetchJson w (buildOperaUrlWithFilterParams w i)) @
            fst (fetchJson w (buildOperaUrlWithFilterParamsVerboseFallback w i))
          else fst (fetchJson w (buildOperaUrlWithFilterParams w i)))"
proof -
  obtain s1 r1 where f1: "fetchJson w (buildOperaUrlWithFilterParams w i) = (s1, r1)"
    by (cases "fetchJson w (buildOperaUrlWithFilterParams w i)")
  obtain s2 r2 where f2: "fetchJson w (buildOperaUrlWithFilterParamsVerboseFallback w i) = (s2, r2)"
    by (cases "fetchJson w (buildOperaUrlWithFilterParamsVerboseFallback w i)")
  show ?thesis using f1 f2
    by (cases r1; cases r2) (simp_all add: lookupOperaByInventario_def Let_def retry_wanted_def)
qed

lemma lookup_final_response:
  "final_response w i res \<Longrightarrow> snd (lookupOperaByInventario w i) = resolveResponse w res"
  by (auto simp: final_response_def lookup_snd split: if_splits)

lemma fetchJson_reply:
  "global_DRUPAL_BASIC_AUTH w = Some cred \<Longrightarrow>
   snd (fetchJson w u) =
     (case network w (fetch_options w cred u) of
        ConnectionFailed \<Rightarrow> Inl TypeError
      | NoReply \<Rightarrow> Inl AbortError
      | Reply latency st body_text \<Rightarrow>
          if timer_delay (DRUPAL_TIMEOUT_MS w) \<le> latency then Inl AbortError
          else Inr \<lparr>ok = (200 \<le> st \<and> st \<le> 299), status = st,
                    json = parse_or_null w body_text, res_text = body_text\<rparr>)"
  by (simp add: fetchJson_def Let_def split: net_reply.splits)

lemma fetchJson_targets:
  "global_DRUPAL_BASIC_AUTH w = Some cred \<Longrightarrow> map target (fst (fetchJson w u)) = [u]"
  by (simp add: fetchJson_def fetch_options_def Let_def split: net_reply.splits)

text \<open>
  With a global \<open>DRUPAL_BASIC_AUTH\<close> the lookup sends the compact query, and the verbose
  query after it exactly when the first answer is a 400 or a 403.
\<close>

lemma lookup_requests_with_global:
  assumes "global_DRUPAL_BASIC_AUTH w = Some cred"
  shows "map target (fst (lookupOperaByInventario w i)) =
     (if \<exists>res. snd (fetchJson w (buildOperaUrlWithFilterParams w i)) = Inr res \<and>
              \<not> ok res \<and> (status res = 400 \<or> status res = 403)
      then [buildOperaUrlWithFilterParams w i, buildOperaUrlWithFilterParamsVerboseFallback w i]
      else [buildOperaUrlWithFilterParams w i])"
  using fetchJson_targets [OF assms]
  by (auto simp: lookup_fst retry_wanted_def split: sum.splits)

lemma fetchJson_answers:
  assumes "global_DRUPAL_BASIC_AUTH w = Some cred"
    and "answers_safely w (network w (fetch_options w cred u))"
  shows "\<exists>res. snd (fetchJson w u) = Inr res \<and> (ok res \<longrightarrow> safe_document (json res)) \<and>
           (retry_wanted res \<longrightarrow> rejects_filter w (network w (fetch_options w cred u)))"
proof -
  let ?rq = "fetch_options w cred u"
  from assms(2) obtain l st b where r: "network w ?rq = Reply l st b"
    and l: "l < timer_delay (DRUPAL_TIMEOUT_MS w)"
    and sd: "200 \<le> st \<and> st \<le> 299 \<longrightarrow> safe_document (parse_or_null w b)"
    by (cases "network w ?rq") (simp_all add: answers_safely_def)
  show ?thesis using r l sd
    by (simp add: fetchJson_reply [OF assms(1)] retry_wanted_def rejects_filter_def)
qed

lemma fetchJson_rejects:
  assumes "global_DRUPAL_BASIC_AUTH w = Some cred"
    and "rejects_filter w (network w (fetch_options w cred u))"
  shows "\<exists>res. snd (fetchJson w u) = Inr res \<and> retry_wanted res"
proof -
  let ?rq = "fetch_options w cred u"
  from assms(2) obtain l st b where r: "network w ?rq = Reply l st b"
    and l: "l < timer_delay (DRUPAL_TIMEOUT_MS w)" and st: "st = 400 \<or> st = 403"
    by (cases "network w ?rq") (simp_all add: rejects_filter_def)
  show ?thesis using r l st
    by (auto simp: fetchJson_reply [OF assms(1)] retry_wanted_def)
qed

lemma fetchJson_late:
  assumes "global_DRUPAL_BASIC_AUTH w = Some cred"
    and "too_late w (network w (fetch_options w cred u))"
  shows "snd (fetchJson w u) = Inl AbortError"
  using assms(2)
  by (cases "network w (fetch_options w cred u)")
     (simp_all add: too_late_def fetchJson_reply [OF assms(1)])

lemma fetchJson_failed:
  assumes "global_DRUPAL_BASIC_AUTH w = Some cred"
    and "network w (fetch_options w cred u) = ConnectionFailed"
  shows "snd (fetchJson w u) = Inl TypeError"
  using assms(2) by (simp add: fetchJson_reply [OF assms(1)])

lemma printable_to_string:
  "printable v \<longrightarrow> (\<exists>s. to_string w v = Inr s)"
  "(\<forall>x\<in>set xs. printable x) \<longrightarrow> (\<exists>s. join_elements w xs = Inr s)"
proof (induction w v and w xs rule: to_string_join_elements.induct)
  case (9 w x xs)
  show ?case
  proof
    assume h: "\<forall>y\<in>set (x # xs). printable y"
    obtain a where a: "(if nullish x then Inr [] else to_string w x) = Inr a"
      using h 9(1) by (cases "nullish x") auto
    show "\<exists>s. join_elements w (x # xs) = Inr s"
    proof (cases "xs = []")
      case True then show ?thesis using a by simp
    next
      case False
      then obtain b where "join_elements w xs = Inr b" using h a 9(2) by auto
      then show ?thesis using a False by simp
    qed
  qed
qed simp_all

lemma stripHtml_printable: "printable v \<Longrightarrow> \<exists>t. stripHtml w v = Inr t"
  using printable_to_string(1) [of v w] by (auto simp: stripHtml_def bind_err_def)

lemma resolveIncludedNames_safe:
  assumes "safe_included payload" and "safe_refs relData"
  shows "\<exists>v. resolveIncludedNames payload relData = Inr v"
proof (cases "\<not> truthy (opt_prop payload ''included'') \<or> \<not> truthy relData")
  case True
  then show ?thesis by (auto simp: resolveIncludedNames_def)
next
  case False
  then have t: "truthy (opt_prop payload ''included'')" and r: "truthy relData" by simp_all
  from t assms(1) obtain xs where xs: "opt_prop payload ''included'' = JArr xs"
    and nn: "\<forall>x\<in>set xs. \<not> nullish x"
    by (cases "opt_prop payload ''included''") (simp_all add: safe_included_def)
  from xs have inc: "own_prop payload ''included'' = JArr xs"
    by (auto simp: opt_prop_def split: if_splits)
  show ?thesis
  proof (cases "\<exists>refs. relData = JArr refs")
    case True
    then obtain refs where refs: "relData = JArr refs" by blast
    then have "\<forall>r\<in>set refs. \<not> nullish r" using assms(2) by (simp add: safe_refs_def)
    then have "map_err (resolveOne (JArr xs)) refs = Inr (map (resolved_name xs) refs)"
      using nn by (intro map_err_safe) (simp add: resolveOne_safe)
    then show ?thesis using t refs inc
      by (simp add: resolveIncludedNames_def bind_err_def)
  next
    case False
    then have "resolveIncludedNames payload relData = resolveOne (JArr xs) relData"
      using t r inc by (cases relData) (simp_all add: resolveIncludedNames_def)
    then show ?thesis using nn r by (simp add: resolveOne_safe truthy_not_nullish)
  qed
qed

lemma resolveResponse_not_ok:
  "\<not> ok res \<Longrightarrow>
   resolveResponse w res =
     Inr (RequestFailed
           (js ''Drupal request failed ('' @ show_nat (status res) @ js '')'')
           (js_or (opt_prop (json res) ''errors'')
             (js_or (JStr (take 500 (res_text res))) JNull)))"
  by (simp add: resolveResponse_def)

lemma resolveResponse_no_item:
  "ok res \<Longrightarrow> \<not> truthy (first_item (json res)) \<Longrightarrow> resolveResponse w res = Inr NotFound"
  by (simp add: resolveResponse_def Let_def)

lemma resolveResponse_safe:
  assumes "ok res \<longrightarrow> safe_document (json res)"
  shows "\<exists>r. resolveResponse w res = Inr r"
proof (cases "ok res")
  case False
  then show ?thesis by (simp add: resolveResponse_not_ok)
next
  case True
  let ?item = "first_item (json res)"
  show ?thesis
  proof (cases "truthy ?item")
    case False
    then show ?thesis using True by (simp add: resolveResponse_no_item)
  next
    case item: True
    have sd: "safe_document (json res)" using assms True by simp
    have rel: "\<And>f. f \<in> set relationship_fields \<Longrightarrow>
        \<exists>v. resolveIncludedNames (json res) (relationship_data ?item f) = Inr v"
      using sd by (intro resolveIncludedNames_safe) (simp_all add: safe_document_def)
    obtain v1 where v1: "resolveIncludedNames (json res) (relationship_data ?item ''field_autore'') = Inr v1"
      using rel [of "''field_autore''"] by (auto simp: relationship_fields_def)
    obtain v2 where v2: "resolveIncludedNames (json res) (relationship_data ?item ''field_tipologia'') = Inr v2"
      using rel [of "''field_tipologia''"] by (auto simp: relationship_fields_def)
    obtain v3 where v3: "resolveIncludedNames (json res) (relationship_data ?item ''field_luogo'') = Inr v3"
      using rel [of "''field_luogo''"] by (auto simp: relationship_fields_def)
    obtain v4 where v4: "resolveIncludedNames (json res) (relationship_data ?item ''field_tecnica'') = Inr v4"
      using rel [of "''field_tecnica''"] by (auto simp: relationship_fields_def)
    obtain v5 where v5: "resolveIncludedNames (json res) (relationship_data ?item ''field_materiale'') = Inr v5"
      using rel [of "''field_materiale''"] by (auto simp: relationship_fields_def)
    obtain v6 where v6: "resolveIncludedNames (json res) (relationship_data ?item ''field_schedatore'') = Inr v6"
      using rel [of "''field_schedatore''"] by (auto simp: relationship_fields_def)
    have "printable (description_of ?item)"
      using sd by (simp add: safe_document_def)
    then obtain t where t: "stripHtml w (description_of ?item) = Inr t"
      using stripHtml_printable by blast
    show ?thesis
      using True item v1 v2 v3 v4 v5 v6 t
      by (simp add: resolveResponse_def Let_def bind_err_def description_of_def)
  qed
qed


lemma bind_err_Inr: "(bind_err r f = Inr y) = (\<exists>x. r = Inr x \<and> f x = Inr y)"
  by (cases r) (simp_all add: bind_err_def)

lemmas lookup_demo_defs = env_demo_def endpoint_demo_def demo_parse_def vase_text_def
  errors_text_def no_data_text_def parse_or_null_def js_def

lemma demo_parsed:
  "parse_or_null (env_demo auth net demo_parse) vase_text = vase_doc"
  "parse_or_null (env_demo auth net demo_parse) errors_text = errors_doc"
  "parse_or_null (env_demo auth net demo_parse) no_data_text = no_data_doc"
  by (simp_all add: lookup_demo_defs)

lemma vase_resolved:
  "resolveResponse w \<lparr>ok = True, status = 200, json = vase_doc, res_text = vase_text\<rparr> =
     Inr (Found vase_item)"
  by (simp add: resolveResponse_def vase_doc_def vase_item_def first_item_def opt_prop_def
        relationship_data_def resolveIncludedNames_def bind_err_def js_or_def js_coalesce_def
        stripHtml_def Let_def js_def)

lemma safe_vase: "safe_document vase_doc"
  by (simp add: safe_document_def safe_included_def safe_refs_def relationship_fields_def
        relationship_data_def description_of_def first_item_def vase_doc_def opt_prop_def
        js_or_def js_def)

text \<open>
  With a global \<open>DRUPAL_BASIC_AUTH\<close>, the document with the one item \<open>Vase\<close> is mapped
  to an item with title \<open>Vase\<close>, inventory number \<open>10220\<close>, the six relationship
  fields null, and both forms of the description empty.
\<close>

lemma lookup_vase_with_global:
  "snd (lookupOperaByInventario
         (env_demo (Some []) (\<lambda>rq. Reply 120 200 vase_text) demo_parse) (js ''10220''))
     = Inr (Found vase_item)"
proof -
  let ?w = "env_demo (Some []) (\<lambda>rq. Reply 120 200 vase_text) demo_parse"
  have "snd (fetchJson ?w u) =
          Inr \<lparr>ok = True, status = 200, json = vase_doc, res_text = vase_text\<rparr>" for u
    using demo_parsed(1) [of "Some []" "\<lambda>rq. Reply 120 200 vase_text"]
    by (simp add: fetchJson_def Let_def) (simp add: env_demo_def)
  then show ?thesis by (simp add: lookup_snd retry_wanted_def vase_resolved)
qed

text \<open>
  C1, as stated, fails. When the repository answers after the timeout, the lookup throws
  the AbortError of the aborted request; and where there is no global
  \<open>DRUPAL_BASIC_AUTH\<close> it throws a ReferenceError.
\<close>

theorem lookup_timeout_throws:
  "snd (lookupOperaByInventario
         (env_demo (Some []) (\<lambda>rq. Reply 15000 200 vase_text) demo_parse) (js ''10220''))
     = Inl AbortError
   \<and> snd (lookupOperaByInventario
         (env_demo None (\<lambda>rq. Reply 15000 200 vase_text) demo_parse) (js ''10220''))
     = Inl ReferenceError"
  by (simp add: lookup_snd fetchJson_def env_demo_def Let_def)

text \<open>
  C1, amended. Once its first request is sent, the lookup returns one of Found, NotFound
  and RequestFailed when that request, and the second one if the first is answered with
  400 or 403, is answered before the abort timer fires, with a status that is not a
  success or with a document on which the mapping does not throw. It catches no failure
  of a request: when the first request, or the second one after a 400 or 403, is not
  answered before the timer fires, the request is aborted and the lookup throws the
  AbortError; when the connection of either fails, it throws the TypeError. The timer
  fires after the timeout setting if that lies between 1 and 2147483647 ms, and after
  1 ms otherwise.
\<close>

theorem lookup_returns_or_throws:
  "(global_DRUPAL_BASIC_AUTH w1 = Some c1 \<and>
    answers_safely w1 (network w1 (first_request w1 c1 i1)) \<and>
    (rejects_filter w1 (network w1 (first_request w1 c1 i1)) \<longrightarrow>
       answers_safely w1 (network w1 (second_request w1 c1 i1))) \<longrightarrow>
      (\<exists>r. snd (lookupOperaByInventario w1 i1) = Inr r))
   \<and> (global_DRUPAL_BASIC_AUTH w2 = Some c2 \<and>
       too_late w2 (network w2 (first_request w2 c2 i2)) \<longrightarrow>
      snd (lookupOperaByInventario w2 i2) = Inl AbortError)
   \<and> (global_DRUPAL_BASIC_AUTH w3 = Some c3 \<and>
       network w3 (first_request w3 c3 i3) = ConnectionFailed \<longrightarrow>
      snd (lookupOperaByInventario w3 i3) = Inl TypeError)
   \<and> (global_DRUPAL_BASIC_AUTH w4 = Some c4 \<and>
       rejects_filter w4 (network w4 (first_request w4 c4 i4)) \<and>
       too_late w4 (network w4 (second_request w4 c4 i4)) \<longrightarrow>
      snd (lookupOperaByInventario w4 i4) = Inl AbortError)
   \<and> (global_DRUPAL_BASIC_AUTH w5 = Some c5 \<and>
       rejects_filter w5 (network w5 (first_request w5 c5 i5)) \<and>
       network w5 (second_request w5 c5 i5) = ConnectionFailed \<longrightarrow>
      snd (lookupOperaByInventario w5 i5) = Inl TypeError)"
proof (intro conjI impI)
  assume a: "global_DRUPAL_BASIC_AUTH w1 = Some c1 \<and>
    answers_safely w1 (network w1 (first_request w1 c1 i1)) \<and>
    (rejects_filter w1 (network w1 (first_request w1 c1 i1)) \<longrightarrow>
       answers_safely w1 (network w1 (second_request w1 c1 i1)))"
  then have g: "global_DRUPAL_BASIC_AUTH w1 = Some c1" by simp
  obtain res1 where r1: "snd (fetchJson w1 (buildOperaUrlWithFilterParams w1 i1)) = Inr res1"
    and s1: "ok res1 \<longrightarrow> safe_document (json res1)"
    and t1: "retry_wanted res1 \<longrightarrow> rejects_filter w1 (network w1 (first_request w1 c1 i1))"
    using fetchJson_answers [OF g, of "buildOperaUrlWithFilterParams w1 i1"] a
    by (auto simp: first_request_def)
  show "\<exists>r. snd (lookupOperaByInventario w1 i1) = Inr r"
  proof (cases "retry_wanted res1")
    case False
    then show ?thesis using r1 resolveResponse_safe [OF s1] by (simp add: lookup_snd)
  next
    case True
    then have "answers_safely w1 (network w1 (second_request w1 c1 i1))" using a t1 by simp
    then obtain res2 where
      r2: "snd (fetchJson w1 (buildOperaUrlWithFilterParamsVerboseFallback w1 i1)) = Inr res2"
      and s2: "ok res2 \<longrightarrow> safe_document (json res2)"
      using fetchJson_answers [OF g, of "buildOperaUrlWithFilterParamsVerboseFallback w1 i1"]
      by (auto simp: second_request_def)
    show ?thesis using True r1 r2 resolveResponse_safe [OF s2] by (simp add: lookup_snd)
  qed
next
  assume "global_DRUPAL_BASIC_AUTH w2 = Some c2 \<and>
       too_late w2 (network w2 (first_request w2 c2 i2))"
  then show "snd (lookupOperaByInventario w2 i2) = Inl AbortError"
    using fetchJson_late [of w2 c2 "buildOperaUrlWithFilterParams w2 i2"]
    by (simp add: lookup_snd first_request_def)
next
  assume "global_DRUPAL_BASIC_AUTH w3 = Some c3 \<and>
       network w3 (first_request w3 c3 i3) = ConnectionFailed"
  then show "snd (lookupOperaByInventario w3 i3) = Inl TypeError"
    using fetchJson_failed [of w3 c3 "buildOperaUrlWithFilterParams w3 i3"]
    by (simp add: lookup_snd first_request_def)
next
  assume a: "global_DRUPAL_BASIC_AUTH w4 = Some c4 \<and>
       rejects_filter w4 (network w4 (first_request w4 c4 i4)) \<and>
       too_late w4 (network w4 (second_request w4 c4 i4))"
  then obtain res1 where "snd (fetchJson w4 (buildOperaUrlWithFilterParams w4 i4)) = Inr res1"
    and "retry_wanted res1"
    using fetchJson_rejects [of w4 c4 "buildOperaUrlWithFilterParams w4 i4"]
    by (auto simp: first_request_def)
  then show "snd (lookupOperaByInventario w4 i4) = Inl AbortError"
    using a fetchJson_late [of w4 c4 "buildOperaUrlWithFilterParamsVerboseFallback w4 i4"]
    by (simp add: lookup_snd second_request_def)
next
  assume a: "global_DRUPAL_BASIC_AUTH w5 = Some c5 \<and>
       rejects_filter w5 (network w5 (first_request w5 c5 i5)) \<and>
       network w5 (second_request w5 c5 i5) = ConnectionFailed"
  then obtain res1 where "snd (fetchJson w5 (buildOperaUrlWithFilterParams w5 i5)) = Inr res1"
    and "retry_wanted res1"
    using fetchJson_rejects [of w5 c5 "buildOperaUrlWithFilterParams w5 i5"]
    by (auto simp: first_request_def)
  then show "snd (lookupOperaByInventario w5 i5) = Inl TypeError"
    using a fetchJson_failed [of w5 c5 "buildOperaUrlWithFilterParamsVerboseFallback w5 i5"]
    by (simp add: lookup_snd second_request_def)
qed

lemma retry_first_answer:
  "snd (fetchJson (env_demo (Some []) retry_net demo_parse)
          (buildOperaUrlWithFilterParams (env_demo (Some []) retry_net demo_parse) (js ''10220''))) =
     Inr \<lparr>ok = False, status = 400, json = JNull, res_text = js ''bad filter''\<rparr>"
  by (simp add: fetchJson_def fetch_options_def retry_net_def buildOperaUrlWithFilterParams_def
        searchParams_set_def lookup_demo_defs Let_def)

lemma retry_second_answer:
  "snd (fetchJson (env_demo (Some []) retry_net demo_parse)
          (buildOperaUrlWithFilterParamsVerboseFallback (env_demo (Some []) retry_net demo_parse) (js ''10220''))) =
     Inr \<lparr>ok = False, status = 404, json = errors_doc, res_text = errors_text\<rparr>"
  by (simp add: fetchJson_def fetch_options_def retry_net_def
        buildOperaUrlWithFilterParamsVerboseFallback_def
        searchParams_set_def lookup_demo_defs Let_def)

text \<open>
  With a global \<open>DRUPAL_BASIC_AUTH\<close>, a repository that rejects the compact filter with
  400 gets the compact and then the verbose query, and nothing more.
\<close>

lemma retry_demo_requests:
  "map target (fst (lookupOperaByInventario (env_demo (Some []) retry_net demo_parse) (js ''10220''))) =
     [buildOperaUrlWithFilterParams (env_demo (Some []) retry_net demo_parse) (js ''10220''),
      buildOperaUrlWithFilterParamsVerboseFallback (env_demo (Some []) retry_net demo_parse) (js ''10220'')]"
proof -
  let ?w = "env_demo (Some []) retry_net demo_parse"
  have g: "global_DRUPAL_BASIC_AUTH ?w = Some []" by (simp add: env_demo_def)
  show ?thesis
    using lookup_requests_with_global [OF g, of "js ''10220''"] retry_first_answer by simp
qed

lemmas request_demo_defs = first_request_def second_request_def fetch_options_def
  buildOperaUrlWithFilterParams_def buildOperaUrlWithFilterParamsVerboseFallback_def
  searchParams_set_def env_demo_def endpoint_demo_def js_def

lemma timer_delay_demo:
  "timer_delay (Finite 10000) = 10000" "timer_delay (Finite 3000000000) = 1"
  by simp_all

theorem lookup_returns_or_throws_witness:
  "(\<exists>r. snd (lookupOperaByInventario
              (env_demo (Some []) retry_net demo_parse) (js ''10220'')) = Inr r)
   \<and> snd (lookupOperaByInventario env_overlong (js ''10220'')) = Inl AbortError
   \<and> snd (lookupOperaByInventario
           (env_demo (Some []) (\<lambda>rq. ConnectionFailed) demo_parse) (js ''10220''))
       = Inl TypeError
   \<and> snd (lookupOperaByInventario
           (env_demo (Some []) retry_late_net demo_parse) (js ''10220''))
       = Inl AbortError
   \<and> snd (lookupOperaByInventario
           (env_demo (Some []) retry_failed_net demo_parse) (js ''10220''))
       = Inl TypeError"
proof -
  let ?i = "js ''10220''"
  let ?w1 = "env_demo (Some []) retry_net demo_parse"
  let ?w3 = "env_demo (Some []) (\<lambda>rq. ConnectionFailed) demo_parse"
  let ?w4 = "env_demo (Some []) retry_late_net demo_parse"
  let ?w5 = "env_demo (Some []) retry_failed_net demo_parse"
  have n1: "network ?w1 (first_request ?w1 [] ?i) = Reply 50 400 (js ''bad filter'')"
    and n1': "network ?w1 (second_request ?w1 [] ?i) = Reply 60 404 errors_text"
    by (simp_all add: retry_net_def request_demo_defs)
  have n4: "network ?w4 (first_request ?w4 [] ?i) = Reply 50 403 (js ''forbidden'')"
    and n4': "network ?w4 (second_request ?w4 [] ?i) = Reply 20000 200 vase_text"
    by (simp_all add: retry_late_net_def request_demo_defs)
  have n5: "network ?w5 (first_request ?w5 [] ?i) = Reply 50 403 (js ''forbidden'')"
    and n5': "network ?w5 (second_request ?w5 [] ?i) = ConnectionFailed"
    by (simp_all add: retry_failed_net_def request_demo_defs)
  have t: "DRUPAL_TIMEOUT_MS (env_demo a n p) = Finite 10000" for a n p
    by (simp add: env_demo_def)
  have 1: "global_DRUPAL_BASIC_AUTH ?w1 = Some [] \<and>
      answers_safely ?w1 (network ?w1 (first_request ?w1 [] ?i)) \<and>
      (rejects_filter ?w1 (network ?w1 (first_request ?w1 [] ?i)) \<longrightarrow>
         answers_safely ?w1 (network ?w1 (second_request ?w1 [] ?i)))"
    unfolding n1 n1' by (simp add: answers_safely_def t) (simp add: env_demo_def)
  have 2: "global_DRUPAL_BASIC_AUTH env_overlong = Some [] \<and>
      too_late env_overlong (network env_overlong (first_request env_overlong [] ?i))"
    by (simp add: env_overlong_def too_late_def env_demo_def)
  have 3: "global_DRUPAL_BASIC_AUTH ?w3 = Some [] \<and>
      network ?w3 (first_request ?w3 [] ?i) = ConnectionFailed"
    by (simp add: env_demo_def)
  have 4: "global_DRUPAL_BASIC_AUTH ?w4 = Some [] \<and>
      rejects_filter ?w4 (network ?w4 (first_request ?w4 [] ?i)) \<and>
      too_late ?w4 (network ?w4 (second_request ?w4 [] ?i))"
    unfolding n4 n4' by (simp add: rejects_filter_def too_late_def t) (simp add: env_demo_def)
  have 5: "global_DRUPAL_BASIC_AUTH ?w5 = Some [] \<and>
      rejects_filter ?w5 (network ?w5 (first_request ?w5 [] ?i)) \<and>
      network ?w5 (second_request ?w5 [] ?i) = ConnectionFailed"
    unfolding n5 n5' by (simp add: rejects_filter_def t) (simp add: env_demo_def)
  show ?thesis
    using lookup_returns_or_throws [of ?w1 "[]" ?i env_overlong "[]" ?i ?w3 "[]" ?i
        ?w4 "[]" ?i ?w5 "[]" ?i] 1 2 3 4 5
    by blast
qed

text \<open>
  C2, the code at the failing input. In a process without a global \<open>DRUPAL_BASIC_AUTH\<close>
  the lookup hands no request to \<open>fetch\<close>, whatever the repository would answer (here
  a 403): building the headers throws a ReferenceError first.
\<close>

theorem lookup_sends_no_request:
  "lookupOperaByInventario (env_demo None (\<lambda>rq. Reply 50 403 []) demo_parse) (js ''10220'')
     = ([], Inl ReferenceError)"
  by (simp add: lookupOperaByInventario_def fetchJson_def env_demo_def)

text \<open>
  C6, the code at the failing input. The repository answers 200 with the document of the
  claim; in a process without a global \<open>DRUPAL_BASIC_AUTH\<close> the lookup throws a
  ReferenceError and returns nothing.
\<close>

theorem lookup_vase_throws:
  "lookupOperaByInventario (env_demo None (\<lambda>rq. Reply 120 200 vase_text) demo_parse) (js ''10220'')
     = ([], Inl ReferenceError)"
  by (simp add: lookupOperaByInventario_def fetchJson_def env_demo_def)

text \<open>
  C7, as stated, fails. The repository answers 500 with an empty body: there is no error
  list, the first 500 characters of the body are the empty string, and the detail of
  the result is null.
\<close>

theorem lookup_failed_empty_body:
  "snd (lookupOperaByInventario (env_demo (Some []) (\<lambda>rq. Reply 40 500 []) demo_parse) (js ''10220''))
     = Inr (RequestFailed (js ''Drupal request failed (500)'') JNull)
   \<and> spec_details \<lparr>ok = False, status = 500, json = JNull, res_text = []\<rparr> = JStr []"
proof -
  let ?w = "env_demo (Some []) (\<lambda>rq. Reply 40 500 []) demo_parse"
  have "snd (fetchJson ?w u) = Inr \<lparr>ok = False, status = 500, json = JNull, res_text = []\<rparr>" for u
    by (simp add: fetchJson_def env_demo_def parse_or_null_def Let_def)
  then show ?thesis
    by (simp add: lookup_snd retry_wanted_def resolveResponse_not_ok js_or_def opt_prop_def
          spec_details_def show_nat.simps js_def)
qed

text \<open>
  C7, amended. When the response the lookup ends with (the first, or the second after a
  retry) is not successful, the result is RequestFailed with the status in its message
  and, as detail, the \<open>errors\<close> of the document if truthy, else the first 500 code units
  of the body if the body is not empty, else null. When it is successful and the
  \<open>data\<close> of the document is an empty list or absent, the result is NotFound.
\<close>

theorem lookup_failed_or_not_found:
  "(final_response w i res \<and> \<not> ok res \<longrightarrow>
      snd (lookupOperaByInventario w i) =
        Inr (RequestFailed
              (js ''Drupal request failed ('' @ show_nat (status res) @ js '')'')
              (if truthy (opt_prop (json res) ''errors'') then opt_prop (json res) ''errors''
               else if res_text res \<noteq> [] then JStr (take 500 (res_text res))
               else JNull)))
   \<and> (final_response w' i' res' \<and> ok res' \<and>
       (opt_prop (json res') ''data'' = JArr [] \<or> opt_prop (json res') ''data'' = JUndefined) \<longrightarrow>
      snd (lookupOperaByInventario w' i') = Inr NotFound)"
proof (intro conjI impI)
  assume a: "final_response w i res \<and> \<not> ok res"
  have d: "js_or (opt_prop (json res) ''errors'') (js_or (JStr (take 500 (res_text res))) JNull) =
      (if truthy (opt_prop (json res) ''errors'') then opt_prop (json res) ''errors''
       else if res_text res \<noteq> [] then JStr (take 500 (res_text res)) else JNull)"
    by (simp add: js_or_def)
  show "snd (lookupOperaByInventario w i) =
        Inr (RequestFailed
              (js ''Drupal request failed ('' @ show_nat (status res) @ js '')'')
              (if truthy (opt_prop (json res) ''errors'') then opt_prop (json res) ''errors''
               else if res_text res \<noteq> [] then JStr (take 500 (res_text res))
               else JNull))"
    using a d lookup_final_response [of w i res] by (simp add: resolveResponse_not_ok)
next
  assume a: "final_response w' i' res' \<and> ok res' \<and>
       (opt_prop (json res') ''data'' = JArr [] \<or> opt_prop (json res') ''data'' = JUndefined)"
  then have "\<not> truthy (first_item (json res'))" by (auto simp: first_item_def)
  then show "snd (lookupOperaByInventario w' i') = Inr NotFound"
    using a lookup_final_response [of w' i' res'] by (simp add: resolveResponse_no_item)
qed

theorem lookup_failed_or_not_found_witness:
  "snd (lookupOperaByInventario (env_demo (Some []) retry_net demo_parse) (js ''10220'')) =
     Inr (RequestFailed (js ''Drupal request failed (404)'')
           (JArr [JObj [(''status'', JStr (js ''404''))]]))
   \<and> snd (lookupOperaByInventario
            (env_demo (Some []) (\<lambda>rq. Reply 30 200 no_data_text) demo_parse) (js ''10220'')) =
     Inr NotFound"
proof -
  let ?w = "env_demo (Some []) retry_net demo_parse"
  let ?res = "\<lparr>ok = False, status = 404, json = errors_doc, res_text = errors_text\<rparr>"
  let ?w' = "env_demo (Some []) (\<lambda>rq. Reply 30 200 no_data_text) demo_parse"
  let ?res' = "\<lparr>ok = True, status = 200, json = no_data_doc, res_text = no_data_text\<rparr>"
  have 1: "final_response ?w (js ''10220'') ?res \<and> \<not> ok ?res"
    by (simp add: final_response_def retry_first_answer retry_second_answer retry_wanted_def)
  have f: "snd (fetchJson ?w' u) = Inr ?res'" for u
    using demo_parsed(3) [of "Some []" "\<lambda>rq. Reply 30 200 no_data_text"]
    by (simp add: fetchJson_def Let_def) (simp add: env_demo_def)
  have 2: "final_response ?w' (js ''10220'') ?res' \<and> ok ?res' \<and>
       (opt_prop (json ?res') ''data'' = JArr [] \<or> opt_prop (json ?res') ''data'' = JUndefined)"
    by (simp add: final_response_def f retry_wanted_def no_data_doc_def opt_prop_def)
  have 3: "show_nat 404 = js ''404''"
    by (simp add: show_nat.simps js_def)
  show ?thesis
    using lookup_failed_or_not_found [of ?w "js ''10220''" ?res ?w' "js ''10220''" ?res'] 1 2 3
    by (simp add: errors_doc_def opt_prop_def js_def)
qed


text \<open>
  C9. In the item that the mapping returns, with \<open>a\<close> the attributes of the item (an
  empty object if they are falsy): the four measurements and the two date bounds are the
  attribute unless it is null or undefined, so the number 0 is kept; the title, the
  inventory number, the period, the date label and the acquisition are the attribute if
  it is truthy and null otherwise, so the empty string and 0 become null.
\<close>

theorem resolved_item_zero_and_falsy:
  assumes "resolveResponse w res = Inr (Found it)"
    and "a = js_or (own_prop (first_item (json res)) ''attributes'') (JObj [])"
  shows "altezza (dimensioni it) = (if nullish (own_prop a ''field_altezza'') then JNull else own_prop a ''field_altezza'')
       \<and> larghezza (dimensioni it) = (if nullish (own_prop a ''field_larghezza'') then JNull else own_prop a ''field_larghezza'')
       \<and> diametro (dimensioni it) = (if nullish (own_prop a ''field_diametro'') then JNull else own_prop a ''field_diametro'')
       \<and> spessore (dimensioni it) = (if nullish (own_prop a ''field_spessore'') then JNull else own_prop a ''field_spessore'')
       \<and> data_da it = (if nullish (own_prop a ''field_data_0'') then JNull else own_prop a ''field_data_0'')
       \<and> data_a it = (if nullish (own_prop a ''field_data_1'') then JNull else own_prop a ''field_data_1'')
       \<and> title it = (if truthy (own_prop a ''title'') then own_prop a ''title'' else JNull)
       \<and> numero_inventario it = (if truthy (own_prop a ''field_inventario'') then own_prop a ''field_inventario'' else JNull)
       \<and> periodo it = (if truthy (own_prop a ''field_periodo'') then own_prop a ''field_periodo'' else JNull)
       \<and> data_label it = (if truthy (own_prop a ''field_data_label'') then own_prop a ''field_data_label'' else JNull)
       \<and> acquisizione it = (if truthy (own_prop a ''field_acquisizione'') then own_prop a ''field_acquisizione'' else JNull)"
proof -
  from assms(1) have "ok res" and "truthy (first_item (json res))"
    by (auto simp: resolveResponse_def Let_def split: if_splits)
  with assms(1) obtain v1 v2 v3 v4 v5 v6 h t where
    "it = \<lparr>item_id = own_prop (first_item (json res)) ''id'',
          item_type = own_prop (first_item (json res)) ''type'',
          title = js_or (own_prop a ''title'') JNull,
          numero_inventario = js_or (own_prop a ''field_inventario'') JNull,
          periodo = js_or (own_prop a ''field_periodo'') JNull,
          data_label = js_or (own_prop a ''field_data_label'') JNull,
          data_da = js_coalesce (own_prop a ''field_data_0'') JNull,
          data_a = js_coalesce (own_prop a ''field_data_1'') JNull,
          acquisizione = js_or (own_prop a ''field_acquisizione'') JNull,
          dimensioni =
            \<lparr>altezza = js_coalesce (own_prop a ''field_altezza'') JNull,
             larghezza = js_coalesce (own_prop a ''field_larghezza'') JNull,
             diametro = js_coalesce (own_prop a ''field_diametro'') JNull,
             spessore = js_coalesce (own_prop a ''field_spessore'') JNull\<rparr>,
          autore = v1, tipologia = v2, luogo = v3, tecnica = v4, materiale = v5, schedatore = v6,
          descrizione = \<lparr>descrizione_text = t, descrizione_html = h\<rparr>,
          links = js_or (own_prop (first_item (json res)) ''links'') JNull\<rparr>"
    unfolding assms(2)
    by (auto simp: resolveResponse_def Let_def bind_err_Inr)
  then show ?thesis by (simp add: js_or_def js_coalesce_def)
qed

lemma zero_resolved:
  "resolveResponse w \<lparr>ok = True, status = 200, json = zero_doc, res_text = []\<rparr> =
     Inr (Found zero_item)"
  by (simp add: resolveResponse_def zero_doc_def zero_item_def first_item_def opt_prop_def
        relationship_data_def resolveIncludedNames_def bind_err_def js_or_def js_coalesce_def
        stripHtml_def Let_def js_def)

theorem resolved_item_zero_and_falsy_witness:
  "resolveResponse (env_demo None (\<lambda>rq. NoReply) demo_parse)
     \<lparr>ok = True, status = 200, json = zero_doc, res_text = []\<rparr> = Inr (Found zero_item)
   \<and> altezza (dimensioni zero_item) = JNum 0
   \<and> larghezza (dimensioni zero_item) = JNull
   \<and> diametro (dimensioni zero_item) = JNum 12
   \<and> data_da zero_item = JNum 0
   \<and> title zero_item = JNull
   \<and> numero_inventario zero_item = JNull
   \<and> periodo zero_item = JStr (js ''XIX'')"
proof -
  let ?w = "env_demo None (\<lambda>rq. NoReply) demo_parse"
  let ?res = "\<lparr>ok = True, status = 200, json = zero_doc, res_text = []\<rparr>"
  let ?a = "js_or (own_prop (first_item (json ?res)) ''attributes'') (JObj [])"
  have a: "?a = JObj [(''title'', JStr []), (''field_inventario'', JNum 0),
          (''field_periodo'', JStr (js ''XIX'')), (''field_data_0'', JNum 0),
          (''field_altezza'', JNum 0), (''field_larghezza'', JNull),
          (''field_diametro'', JNum 12)]"
    by (simp add: zero_doc_def first_item_def opt_prop_def js_or_def)
  show ?thesis
    using resolved_item_zero_and_falsy [of ?w ?res zero_item ?a, OF zero_resolved refl]
    unfolding a
    by (simp add: zero_resolved js_def)
qed

section \<open>The dispatcher\<close>

lemma post_reject:
  "find_session st (mcp_session_id req) = None \<Longrightarrow>
   truthy_header (mcp_session_id req) \<or> \<not> isInitializeRequest k (body req) \<Longrightarrow>
   post_mcp k st req =
     (JsonRpcError 400 (- 32000) (js ''Bad Request: No valid session ID provided''), st)"
  by (auto simp: post_mcp_def Let_def)

lemma post_fresh:
  "fresh (snd (post_mcp k st req)) \<noteq> fresh st \<Longrightarrow>
   \<not> truthy_header (mcp_session_id req) \<and> isInitializeRequest k (body req)"
  by (auto simp: post_mcp_def Let_def split: option.splits if_splits)

lemmas dispatcher_demo_defs = sdk_demo_def st_empty_def st_one_def init_body_def call_body_def
  find_session_def truthy_header_def caught_def js_def

text \<open>
  C5. A POST without a session id whose body is not an initialization request is
  answered with status 400 and the JSON-RPC error -32000, \<open>Bad Request: No valid session
  ID provided\<close>, and the registry is unchanged; so is a POST with a session id that is
  not registered and such a body. A GET with a session id that is not registered is
  answered with status 400, \<open>Invalid or missing session ID\<close>, and the registry is
  unchanged.
\<close>

theorem dispatcher_rejects:
  "(mcp_session_id req = None \<and> \<not> isInitializeRequest k (body req) \<longrightarrow>
      post_mcp k st req =
        (JsonRpcError 400 (- 32000) (js ''Bad Request: No valid session ID provided''), st))
   \<and> (mcp_session_id req' = Some sid \<and> sessions st' sid = None \<and>
       \<not> isInitializeRequest k' (body req') \<longrightarrow>
      post_mcp k' st' req' =
        (JsonRpcError 400 (- 32000) (js ''Bad Request: No valid session ID provided''), st'))
   \<and> (mcp_session_id req'' = Some sid' \<and> sessions st'' sid' = None \<longrightarrow>
      get_mcp k'' st'' req'' = (Inr (PlainText 400 (js ''Invalid or missing session ID'')), st''))"
  by (auto simp: post_reject find_session_def get_mcp_def forward_mcp_def Let_def)

theorem dispatcher_rejects_witness:
  "post_mcp sdk_demo st_one \<lparr>mcp_session_id = None, body = call_body\<rparr> =
     (JsonRpcError 400 (- 32000) (js ''Bad Request: No valid session ID provided''), st_one)
   \<and> post_mcp sdk_demo st_one \<lparr>mcp_session_id = Some (js ''s2''), body = call_body\<rparr> =
     (JsonRpcError 400 (- 32000) (js ''Bad Request: No valid session ID provided''), st_one)
   \<and> get_mcp sdk_demo st_one \<lparr>mcp_session_id = Some (js ''s2''), body = JUndefined\<rparr> =
     (Inr (PlainText 400 (js ''Invalid or missing session ID'')), st_one)"
  using dispatcher_rejects [of "\<lparr>mcp_session_id = None, body = call_body\<rparr>" sdk_demo st_one
               "\<lparr>mcp_session_id = Some (js ''s2''), body = call_body\<rparr>" "js ''s2''" st_one sdk_demo
               "\<lparr>mcp_session_id = Some (js ''s2''), body = JUndefined\<rparr>" "js ''s2''" st_one sdk_demo]
  by (simp add: st_one_def sdk_demo_def call_body_def js_def)

text \<open>
  C8, as stated, fails. A POST whose session-id header is present and empty carries the
  id \<open>""\<close>, which is not registered; with an initialization body it is not rejected:
  a transport and a server are built and the session is registered.
\<close>

theorem post_empty_header_creates_session:
  "post_mcp sdk_demo st_empty \<lparr>mcp_session_id = Some [], body = init_body\<rparr> =
     (ByTransport 1, st_one)
   \<and> sessions st_empty [] = None"
  by (simp add: post_mcp_def dispatcher_demo_defs)

text \<open>
  C8, amended. A POST that carries a session id that is not empty and not registered is
  answered with status 400 and the error -32000, \<open>Bad Request: No valid session ID
  provided\<close>, also when its body is an initialization request, and the registry is
  unchanged. A transport and a server are built only for an initialization request
  whose session-id header is absent or empty.
\<close>

theorem post_unknown_session_rejected:
  "(mcp_session_id req = Some sid \<and> sid \<noteq> [] \<and> sessions st sid = None \<longrightarrow>
      post_mcp k st req =
        (JsonRpcError 400 (- 32000) (js ''Bad Request: No valid session ID provided''), st))
   \<and> (fresh (snd (post_mcp k' st' req')) \<noteq> fresh st' \<longrightarrow>
      \<not> truthy_header (mcp_session_id req') \<and> isInitializeRequest k' (body req'))"
proof (rule conjI; rule impI)
  assume "mcp_session_id req = Some sid \<and> sid \<noteq> [] \<and> sessions st sid = None"
  then show "post_mcp k st req =
        (JsonRpcError 400 (- 32000) (js ''Bad Request: No valid session ID provided''), st)"
    by (intro post_reject) (simp_all add: find_session_def truthy_header_def)
next
  assume "fresh (snd (post_mcp k' st' req')) \<noteq> fresh st'"
  then show "\<not> truthy_header (mcp_session_id req') \<and> isInitializeRequest k' (body req')"
    by (rule post_fresh)
qed

theorem post_unknown_session_rejected_witness:
  "post_mcp sdk_demo st_one \<lparr>mcp_session_id = Some (js ''s2''), body = init_body\<rparr> =
     (JsonRpcError 400 (- 32000) (js ''Bad Request: No valid session ID provided''), st_one)
   \<and> fresh (snd (post_mcp sdk_demo st_empty \<lparr>mcp_session_id = None, body = init_body\<rparr>)) = 2
   \<and> isInitializeRequest sdk_demo init_body"
proof -
  have 1: "fresh (snd (post_mcp sdk_demo st_empty \<lparr>mcp_session_id = None, body = init_body\<rparr>)) = 2"
    by (simp add: post_mcp_def dispatcher_demo_defs)
  show ?thesis
    using post_unknown_session_rejected [of "\<lparr>mcp_session_id = Some (js ''s2''), body = init_body\<rparr>"
        "js ''s2''" st_one sdk_demo sdk_demo st_empty "\<lparr>mcp_session_id = None, body = init_body\<rparr>"] 1
    by (simp add: st_one_def st_empty_def js_def)
qed

end
